theory Spec2Isabelle
  imports Main
begin

section \<open>The Twitch client's call pipeline (TwitchClient.ts)\<close>

text \<open>
  A shallow embedding of \<^verbatim>\<open>src/packages/twitch/src/TwitchClient.ts\<close>: the request builder
  \<^verbatim>\<open>_callAPIRaw\<close> with \<^verbatim>\<open>_getUrl\<close>, the response decoder \<^verbatim>\<open>_transformResponse\<close>, the
  authenticated pipeline \<^verbatim>\<open>callAPI\<close> with \<^verbatim>\<open>_callAPIInternal\<close>, and the two
  \<^verbatim>\<open>getTokenInfo\<close> entry points.

  JavaScript strings are modelled as \<^typ>\<open>string\<close>, \<^verbatim>\<open>undefined\<close> as \<^term>\<open>None\<close>, a thrown
  exception or rejected promise as \<^term>\<open>Inl\<close> of an error value, and every \<^verbatim>\<open>await\<close> of a
  collaborator (the auth provider, the rate limiter, \<^verbatim>\<open>fetch\<close>) as a state-passing call
  that is recorded in a log of events.
\<close>

subsection \<open>Call descriptors\<close>

text \<open>The enum \<^verbatim>\<open>TwitchAPICallType\<close> (lines 79-99).\<close>

datatype TwitchAPICallType = Kraken | Helix | Auth | Custom

text \<open>The union \<^verbatim>\<open>'GET' | 'POST' | 'PUT' | 'PATCH' | 'DELETE'\<close> of line 120.\<close>

datatype HTTPMethod = GET | POST | PUT | PATCH | DELETE

text \<open>
  A value of a query or form record: \<^verbatim>\<open>string | string[] | undefined\<close> (lines 125, 132).
  A record is an association list, in insertion order.
\<close>

datatype QSValue = QString string | QArray "string list" | QUndefined

type_synonym QSRecord = "(string \<times> QSValue) list"

text \<open>
  The values a \<^verbatim>\<open>jsonBody\<close> (typed \<^verbatim>\<open>any\<close>) ranges over, as far as JSON has them. Numbers
  are restricted to integers; \<^verbatim>\<open>undefined\<close> is the absence of the field.
\<close>

datatype JSON =
  JNull
  | JBool bool
  | JNumber int
  | JString string
  | JArray "JSON list"
  | JObject "(string \<times> JSON) list"

text \<open>
  The interface \<^verbatim>\<open>TwitchAPICallOptions\<close> (lines 104-157). Every optional field is an
  \<^typ>\<open>'a option\<close>. The version is a JavaScript number; the model covers the integers.
\<close>

record TwitchAPICallOptions =
  opt_url :: string
  opt_type :: "TwitchAPICallType option"
  opt_method :: "HTTPMethod option"
  opt_query :: "QSRecord option"
  opt_body :: "QSRecord option"
  opt_jsonBody :: "JSON option"
  opt_scope :: "string option"
  opt_version :: "int option"

text \<open>An object literal \<^verbatim>\<open>{ url: u }\<close> with every other field left out.\<close>

definition call_options :: "string \<Rightarrow> TwitchAPICallOptions" where
  "call_options u =
     \<lparr>opt_url = u, opt_type = None, opt_method = None, opt_query = None, opt_body = None,
      opt_jsonBody = None, opt_scope = None, opt_version = None\<rparr>"

subsection \<open>JavaScript truthiness and number formatting\<close>

text \<open>
  The source tests presence with truthiness (\<^verbatim>\<open>if (clientId)\<close>, \<^verbatim>\<open>options.version || 5\<close>,
  \<^verbatim>\<open>if (options.jsonBody)\<close>): \<^verbatim>\<open>undefined\<close>, the empty string, \<^verbatim>\<open>0\<close>, \<^verbatim>\<open>false\<close> and
  \<^verbatim>\<open>null\<close> are falsy, every object and array is truthy.
\<close>

definition truthy_number :: "int option \<Rightarrow> bool" where
  "truthy_number n = (case n of None \<Rightarrow> False | Some v \<Rightarrow> v \<noteq> 0)"

fun truthy_value :: "JSON \<Rightarrow> bool" where
  "truthy_value JNull = False"
| "truthy_value (JBool b) = b"
| "truthy_value (JNumber n) = (n \<noteq> 0)"
| "truthy_value (JString s) = (s \<noteq> [])"
| "truthy_value (JArray xs) = True"
| "truthy_value (JObject kvs) = True"

text \<open>The decimal digits of a natural number, most significant first.\<close>

fun string_of_nat :: "nat \<Rightarrow> string" where
  "string_of_nat n =
     (if n < 10 then [''0123456789'' ! n]
      else string_of_nat (n div 10) @ [''0123456789'' ! (n mod 10)])"

declare string_of_nat.simps [simp del]

text \<open>
  What a template literal \<^verbatim>\<open>`${n}`\<close> prints for an integer \<^verbatim>\<open>n\<close> (of magnitude below
  \<^verbatim>\<open>1e21\<close>, where JavaScript switches to exponent notation).
\<close>

definition Number_toString :: "int \<Rightarrow> string" where
  "Number_toString i =
     (if i < 0 then CHR ''-'' # string_of_nat (nat (- i)) else string_of_nat (nat i))"

subsection \<open>External functions\<close>

text \<open>
  The functions the client imports from outside the repository are parameters of the
  model: \<^verbatim>\<open>stringify\<close> of \<^verbatim>\<open>@d-fischer/qs\<close> (its second argument is the \<^verbatim>\<open>arrayFormat\<close>
  option, when given), and the built-ins \<^verbatim>\<open>JSON.stringify\<close> and \<^verbatim>\<open>JSON.parse\<close>
  (\<^term>\<open>None\<close> when parsing throws).
\<close>

record Lib =
  stringify :: "QSRecord option \<Rightarrow> string option \<Rightarrow> string"
  JSON_stringify :: "JSON \<Rightarrow> string"
  JSON_parse :: "string \<Rightarrow> JSON option"

subsection \<open>Requests and headers\<close>

text \<open>
  A \<^verbatim>\<open>Headers\<close> object as the list of its entries in insertion order.
  \<^verbatim>\<open>append\<close> adds an entry; the values of a name are the values of its entries. Names
  are compared as written: the four names the client uses differ in more than letter case.
\<close>

type_synonym Headers = "(string \<times> string) list"

definition Headers_append :: "Headers \<Rightarrow> string \<Rightarrow> string \<Rightarrow> Headers" where
  "Headers_append h name v = h @ [(name, v)]"

definition header_values :: "Headers \<Rightarrow> string \<Rightarrow> string list" where
  "header_values h name = map snd (filter (\<lambda>entry. fst entry = name) h)"

text \<open>The arguments of the call to \<^verbatim>\<open>fetch\<close> (line 385): the URL and the \<^verbatim>\<open>RequestInit\<close>.\<close>

record Request =
  req_url :: string
  req_method :: HTTPMethod
  req_headers :: Headers
  req_body :: "string option"

subsection \<open>URL resolution: \<^verbatim>\<open>_getUrl\<close> (lines 537-550)\<close>

text \<open>\<^verbatim>\<open>url.replace(/^\//, '')\<close>: one slash at the start of the string is removed.\<close>

fun strip_leading_slash :: "string \<Rightarrow> string" where
  "strip_leading_slash [] = []"
| "strip_leading_slash (c # cs) = (if c = CHR ''/'' then cs else c # cs)"

definition getUrl :: "string \<Rightarrow> TwitchAPICallType \<Rightarrow> string" where
  "getUrl u ty =
     (case ty of
        Kraken \<Rightarrow>
          ''https://api.twitch.tv/'' @ (if ty = Kraken then ''kraken'' else ''helix'') @ ''/''
            @ strip_leading_slash u
      | Helix \<Rightarrow>
          ''https://api.twitch.tv/'' @ (if ty = Kraken then ''kraken'' else ''helix'') @ ''/''
            @ strip_leading_slash u
      | Auth \<Rightarrow> ''https://id.twitch.tv/oauth2/'' @ strip_leading_slash u
      | Custom \<Rightarrow> u)"

subsection \<open>The request builder: \<^verbatim>\<open>_callAPIRaw\<close> (lines 347-386)\<close>

text \<open>Line 352: an omitted type is \<^verbatim>\<open>Kraken\<close>.\<close>

definition call_type :: "TwitchAPICallOptions \<Rightarrow> TwitchAPICallType" where
  "call_type options = (case opt_type options of None \<Rightarrow> Kraken | Some ty \<Rightarrow> ty)"

text \<open>Line 358: \<^verbatim>\<open>options.version || 5\<close>.\<close>

definition version_or_default :: "int option \<Rightarrow> int" where
  "version_or_default v = (if truthy_number v then (case v of Some n \<Rightarrow> n | None \<Rightarrow> 5) else 5)"

text \<open>Lines 355-360: the \<^verbatim>\<open>Accept\<close> header the \<^verbatim>\<open>Headers\<close> object is created with.\<close>

definition accept_header :: "TwitchAPICallOptions \<Rightarrow> Headers" where
  "accept_header options =
     [(''Accept'',
       if call_type options = Kraken
       then ''application/vnd.twitchtv.v'' @ Number_toString (version_or_default (opt_version options))
              @ ''+json''
       else ''application/json'')]"

text \<open>
  Lines 362-369: the body and its content type. A form body is an object, which is always
  truthy; a JSON body is tested for truthiness.
\<close>

definition body_and_content_type ::
  "Lib \<Rightarrow> TwitchAPICallOptions \<Rightarrow> Headers \<Rightarrow> string option \<times> Headers" where
  "body_and_content_type L options h =
     (case opt_body options of
        Some b \<Rightarrow>
          (Some (stringify L (Some b) None),
           Headers_append h ''Content-Type'' ''application/x-www-form-urlencoded'')
      | None \<Rightarrow>
          (case opt_jsonBody options of
             Some j \<Rightarrow>
               if truthy_value j
               then (Some (JSON_stringify L j), Headers_append h ''Content-Type'' ''application/json'')
               else (None, h)
           | None \<Rightarrow> (None, h)))"

text \<open>
  Lines 371-373: \<^verbatim>\<open>if (clientId && type !== TwitchAPICallType.Auth)\<close>. A string is truthy
  when it is not empty.
\<close>

definition client_id_header :: "TwitchAPICallType \<Rightarrow> string option \<Rightarrow> Headers \<Rightarrow> Headers" where
  "client_id_header ty clientId h =
     (case clientId of
        Some c \<Rightarrow> if c \<noteq> [] \<and> ty \<noteq> Auth then Headers_append h ''Client-ID'' c else h
      | None \<Rightarrow> h)"

text \<open>Lines 375-377: \<^verbatim>\<open>if (accessToken)\<close>, and the scheme by the type.\<close>

definition authorization_header :: "TwitchAPICallType \<Rightarrow> string option \<Rightarrow> Headers \<Rightarrow> Headers" where
  "authorization_header ty accessToken h =
     (case accessToken of
        Some t \<Rightarrow>
          if t \<noteq> []
          then Headers_append h ''Authorization''
                 ((if ty = Helix then ''Bearer'' else ''OAuth'') @ '' '' @ t)
          else h
      | None \<Rightarrow> h)"

text \<open>
  The whole of \<^verbatim>\<open>_callAPIRaw\<close> up to the call of \<^verbatim>\<open>fetch\<close>: the URL and the
  \<^verbatim>\<open>RequestInit\<close> it passes.
\<close>

definition callAPIRaw_request ::
  "Lib \<Rightarrow> TwitchAPICallOptions \<Rightarrow> string option \<Rightarrow> string option \<Rightarrow> Request" where
  "callAPIRaw_request L options clientId accessToken =
     (let ty = call_type options;
          u = getUrl (opt_url options) ty;
          params = stringify L (opt_query options) (Some ''repeat'');
          headers = accept_header options;
          (body, headers) = body_and_content_type L options headers;
          headers = client_id_header ty clientId headers;
          headers = authorization_header ty accessToken headers
      in \<lparr>req_url = (if params \<noteq> [] then u @ ''?'' @ params else u),
          req_method = (case opt_method options of Some m \<Rightarrow> m | None \<Rightarrow> GET),
          req_headers = headers,
          req_body = body\<rparr>)"

subsection \<open>Responses and errors\<close>

text \<open>
  What the client reads of a \<^verbatim>\<open>Response\<close>: the status, the status text and the body
  (what \<^verbatim>\<open>response.text()\<close> resolves to). \<^verbatim>\<open>response.ok\<close> is true for a status from 200
  to 299.
\<close>

record Response =
  resp_status :: nat
  resp_statusText :: string
  resp_text :: string

definition resp_ok :: "Response \<Rightarrow> bool" where
  "resp_ok r = (200 \<le> resp_status r \<and> resp_status r \<le> 299)"

text \<open>
  Modelled from the spec: the classes \<^verbatim>\<open>HTTPStatusCodeError\<close> and \<^verbatim>\<open>InvalidTokenError\<close>
  (\<^verbatim>\<open>./Errors\<close>) are not in \<^verbatim>\<open>TwitchClient.ts\<close>. An HTTP-status error carries the
  status code, the status text and the parsed body, which are the constructor arguments of
  line 554 (line 337 reads its \<^verbatim>\<open>statusCode\<close>); the invalid-token error carries nothing.

  The other errors a call can end with: \<^verbatim>\<open>SyntaxError\<close> is what parsing malformed JSON
  throws; \<^verbatim>\<open>CollaboratorError\<close> stands for whatever an auth provider, the rate limiter
  or \<^verbatim>\<open>fetch\<close> rejects with.
\<close>

datatype Error =
  HTTPStatusCodeError nat string JSON
  | InvalidTokenError
  | SyntaxError
  | CollaboratorError string

subsection \<open>The response decoder: \<^verbatim>\<open>_transformResponse\<close> (lines 552-570)\<close>

text \<open>
  \<^verbatim>\<open>response.json()\<close> parses the body; \<^verbatim>\<open>undefined\<close>, the result for a 204 and for an
  empty body, is \<^term>\<open>None\<close>.
\<close>

definition transformResponse :: "Lib \<Rightarrow> Response \<Rightarrow> Error + JSON option" where
  "transformResponse L response =
     (if \<not> resp_ok response then
        (case JSON_parse L (resp_text response) of
           None \<Rightarrow> Inl SyntaxError
         | Some payload \<Rightarrow>
             Inl (HTTPStatusCodeError (resp_status response) (resp_statusText response) payload))
      else if resp_status response = 204 then Inr None
      else if resp_text response = [] then Inr None
      else (case JSON_parse L (resp_text response) of
              None \<Rightarrow> Inl SyntaxError
            | Some v \<Rightarrow> Inr (Some v)))"

subsection \<open>Collaborators and the event log\<close>

text \<open>
  Modelled from the spec: the class \<^verbatim>\<open>AccessToken\<close> (\<^verbatim>\<open>./API/AccessToken\<close>) is not in
  \<^verbatim>\<open>TwitchClient.ts\<close>. The client reads its token string and its expiry indicator
  (lines 469, 473).
\<close>

record AccessToken =
  tok_accessToken :: string
  tok_isExpired :: bool

text \<open>The interface \<^verbatim>\<open>TwitchAPICallOptionsInternal\<close> (lines 162-166).\<close>

record TwitchAPICallOptionsInternal =
  int_options :: TwitchAPICallOptions
  int_clientId :: "string option"
  int_accessToken :: "string option"

text \<open>
  One event per call of a collaborator, with the arguments and with what the call resolved
  to or rejected with.
\<close>

datatype Event =
  GetAccessToken "string list option" "Error + AccessToken option"
  | Refresh "Error + AccessToken"
  | LimiterRequest TwitchAPICallOptionsInternal "Error + Response"
  | Fetch Request "Error + Response"

text \<open>
  Modelled from the spec: the interface \<^verbatim>\<open>AuthProvider\<close> (\<^verbatim>\<open>./Auth/AuthProvider\<close>) and the
  class \<^verbatim>\<open>HelixRateLimiter\<close> (\<^verbatim>\<open>./API/Helix/HelixRateLimiter\<close>) are not in
  \<^verbatim>\<open>TwitchClient.ts\<close>. The provider has \<^verbatim>\<open>getAccessToken(scopes?)\<close>, resolving to a token
  or to nothing, the optional method \<^verbatim>\<open>refresh()\<close>, resolving to a token, and a client
  identifier; the rate limiter has \<^verbatim>\<open>request\<close>, resolving to a response.

  The collaborators are functions of a state of the outside world \<^typ>\<open>'w\<close>, which they
  may change and which decides what they answer: \<^verbatim>\<open>fetch\<close>, the rate limiter's
  \<^verbatim>\<open>request\<close>, and the provider. Nothing is assumed about them.
\<close>

record 'w Env =
  env_lib :: Lib
  env_fetch :: "Request \<Rightarrow> 'w \<Rightarrow> (Error + Response) \<times> 'w"
  env_limiter :: "TwitchAPICallOptionsInternal \<Rightarrow> 'w \<Rightarrow> (Error + Response) \<times> 'w"
  env_getAccessToken :: "string list option \<Rightarrow> 'w \<Rightarrow> (Error + AccessToken option) \<times> 'w"
  env_refresh :: "('w \<Rightarrow> (Error + AccessToken) \<times> 'w) option"
  env_clientId :: string

text \<open>
  An asynchronous function: from the state of the world to its outcome, the new state and
  the events of its collaborator calls, in order.
\<close>

type_synonym ('w, 'a) Action = "'w \<Rightarrow> (Error + 'a) \<times> 'w \<times> Event list"

definition returnA :: "'a \<Rightarrow> ('w, 'a) Action" where
  "returnA x = (\<lambda>w. (Inr x, w, []))"

definition throwA :: "Error \<Rightarrow> ('w, 'a) Action" where
  "throwA e = (\<lambda>w. (Inl e, w, []))"

definition resultA :: "Error + 'a \<Rightarrow> ('w, 'a) Action" where
  "resultA r = (\<lambda>w. (r, w, []))"

text \<open>\<^verbatim>\<open>const x = await m; ...\<close>: a rejection of \<^verbatim>\<open>m\<close> ends the function.\<close>

definition bindA :: "('w, 'a) Action \<Rightarrow> ('a \<Rightarrow> ('w, 'b) Action) \<Rightarrow> ('w, 'b) Action" where
  "bindA m f =
     (\<lambda>w. case m w of
        (Inl e, w1, evs) \<Rightarrow> (Inl e, w1, evs)
      | (Inr x, w1, evs) \<Rightarrow> (case f x w1 of (r, w2, evs2) \<Rightarrow> (r, w2, evs @ evs2)))"

text \<open>\<^verbatim>\<open>try { m } catch (e) { h(e) }\<close>.\<close>

definition catchA :: "('w, 'a) Action \<Rightarrow> (Error \<Rightarrow> ('w, 'a) Action) \<Rightarrow> ('w, 'a) Action" where
  "catchA m h =
     (\<lambda>w. case m w of
        (Inl e, w1, evs) \<Rightarrow> (case h e w1 of (r, w2, evs2) \<Rightarrow> (r, w2, evs @ evs2))
      | (Inr x, w1, evs) \<Rightarrow> (Inr x, w1, evs))"

definition fetch_call :: "'w Env \<Rightarrow> Request \<Rightarrow> ('w, Response) Action" where
  "fetch_call env rq = (\<lambda>w. case env_fetch env rq w of (r, w1) \<Rightarrow> (r, w1, [Fetch rq r]))"

definition limiter_call :: "'w Env \<Rightarrow> TwitchAPICallOptionsInternal \<Rightarrow> ('w, Response) Action" where
  "limiter_call env q =
     (\<lambda>w. case env_limiter env q w of (r, w1) \<Rightarrow> (r, w1, [LimiterRequest q r]))"

definition getAccessToken_call ::
  "'w Env \<Rightarrow> string list option \<Rightarrow> ('w, AccessToken option) Action" where
  "getAccessToken_call env scopes =
     (\<lambda>w. case env_getAccessToken env scopes w of (r, w1) \<Rightarrow> (r, w1, [GetAccessToken scopes r]))"

text \<open>
  \<^verbatim>\<open>authProvider.refresh()\<close>. The client calls it only behind the test
  \<^verbatim>\<open>authProvider.refresh\<close>; calling a method that is not there throws.
\<close>

definition refresh_call :: "'w Env \<Rightarrow> ('w, AccessToken) Action" where
  "refresh_call env =
     (case env_refresh env of
        None \<Rightarrow> throwA (CollaboratorError ''authProvider.refresh is not a function'')
      | Some rf \<Rightarrow> (\<lambda>w. case rf w of (r, w1) \<Rightarrow> (r, w1, [Refresh r])))"

subsection \<open>The static calls (lines 244-248, 328-342, 347-386)\<close>

text \<open>\<^verbatim>\<open>_callAPIRaw\<close>: the built request is handed to \<^verbatim>\<open>fetch\<close> (line 385).\<close>

definition callAPIRaw ::
  "'w Env \<Rightarrow> TwitchAPICallOptions \<Rightarrow> string option \<Rightarrow> string option \<Rightarrow> ('w, Response) Action" where
  "callAPIRaw env options clientId accessToken =
     fetch_call env (callAPIRaw_request (env_lib env) options clientId accessToken)"

text \<open>The static \<^verbatim>\<open>callAPI\<close> (lines 244-248).\<close>

definition static_callAPI ::
  "'w Env \<Rightarrow> TwitchAPICallOptions \<Rightarrow> string option \<Rightarrow> string option \<Rightarrow> ('w, JSON option) Action"
  where
  "static_callAPI env options clientId accessToken =
     bindA (callAPIRaw env options clientId accessToken)
       (\<lambda>response. resultA (transformResponse (env_lib env) response))"

text \<open>
  Modelled from the spec: the class \<^verbatim>\<open>TokenInfo\<close> (\<^verbatim>\<open>./API/TokenInfo\<close>) is not in
  \<^verbatim>\<open>TwitchClient.ts\<close>; its constructor wraps the decoded data.
\<close>

datatype TokenInfo = TokenInfo "JSON option"

text \<open>The object literal \<^verbatim>\<open>{ type: TwitchAPICallType.Auth, url: 'validate' }\<close>.\<close>

definition validate_options :: TwitchAPICallOptions where
  "validate_options = (call_options ''validate'')\<lparr>opt_type := Some Auth\<rparr>"

text \<open>The \<^verbatim>\<open>catch\<close> block shared by both \<^verbatim>\<open>getTokenInfo\<close> (lines 336-341, 425-430).\<close>

definition token_info_catch :: "Error \<Rightarrow> ('w, 'a) Action" where
  "token_info_catch e =
     (case e of
        HTTPStatusCodeError statusCode statusText body \<Rightarrow>
          if statusCode = 401 then throwA InvalidTokenError else throwA e
      | _ \<Rightarrow> throwA e)"

text \<open>The static \<^verbatim>\<open>getTokenInfo\<close> (lines 328-342).\<close>

definition static_getTokenInfo :: "'w Env \<Rightarrow> string \<Rightarrow> string option \<Rightarrow> ('w, TokenInfo) Action" where
  "static_getTokenInfo env accessToken clientId =
     catchA
       (bindA (static_callAPI env validate_options clientId (Some accessToken))
          (\<lambda>data. returnA (TokenInfo data)))
       token_info_catch"

subsection \<open>The instance calls (lines 421-431, 462-483, 529-535)\<close>

text \<open>
  \<^verbatim>\<open>_callAPIInternal\<close> (lines 529-535): a call whose type is Helix goes to the rate limiter,
  every other call, also one without a type, to \<^verbatim>\<open>_callAPIRaw\<close>.
\<close>

definition callAPIInternal ::
  "'w Env \<Rightarrow> TwitchAPICallOptions \<Rightarrow> string option \<Rightarrow> string option \<Rightarrow> ('w, Response) Action" where
  "callAPIInternal env options clientId accessToken =
     (if opt_type options = Some Helix
      then limiter_call env
             \<lparr>int_options = options, int_clientId = clientId, int_accessToken = accessToken\<rparr>
      else callAPIRaw env options clientId accessToken)"

text \<open>Line 464: \<^verbatim>\<open>options.scope ? [options.scope] : undefined\<close>.\<close>

definition initial_scopes :: "TwitchAPICallOptions \<Rightarrow> string list option" where
  "initial_scopes options =
     (case opt_scope options of
        Some s \<Rightarrow> if s \<noteq> [] then Some [s] else None
      | None \<Rightarrow> None)"

text \<open>Line 476: \<^verbatim>\<open>options.scope ? [options.scope] : []\<close>.\<close>

definition retry_scopes :: "TwitchAPICallOptions \<Rightarrow> string list option" where
  "retry_scopes options =
     (case opt_scope options of
        Some s \<Rightarrow> if s \<noteq> [] then Some [s] else Some []
      | None \<Rightarrow> Some [])"

text \<open>Lines 474-480: the response the decoder gets after the handling of a 401.\<close>

definition handle_unauthorized ::
  "'w Env \<Rightarrow> TwitchAPICallOptions \<Rightarrow> Response \<Rightarrow> ('w, Response) Action" where
  "handle_unauthorized env options response =
     (if resp_status response = 401 \<and> env_refresh env \<noteq> None then
        bindA (refresh_call env) (\<lambda>refreshed.
        bindA (getAccessToken_call env (retry_scopes options)) (\<lambda>accessToken.
          case accessToken of
            None \<Rightarrow> returnA response
          | Some token \<Rightarrow>
              callAPIInternal env options (Some (env_clientId env))
                (Some (tok_accessToken token))))
      else returnA response)"

text \<open>
  The instance \<^verbatim>\<open>callAPI\<close> (lines 462-483): the acquisition of a token, the fallback to the
  static call when there is none, the refresh of an expired token, the dispatch, the
  handling of a 401 and the decoding.
\<close>

definition callAPI :: "'w Env \<Rightarrow> TwitchAPICallOptions \<Rightarrow> ('w, JSON option) Action" where
  "callAPI env options =
     bindA (getAccessToken_call env (initial_scopes options)) (\<lambda>accessToken.
       case accessToken of
         None \<Rightarrow> static_callAPI env options (Some (env_clientId env)) None
       | Some token \<Rightarrow>
           bindA (if tok_isExpired token \<and> env_refresh env \<noteq> None
                  then refresh_call env else returnA token) (\<lambda>token.
           bindA (callAPIInternal env options (Some (env_clientId env))
                    (Some (tok_accessToken token))) (\<lambda>response.
           bindA (handle_unauthorized env options response) (\<lambda>response.
           resultA (transformResponse (env_lib env) response)))))"

text \<open>The instance \<^verbatim>\<open>getTokenInfo\<close> (lines 421-431).\<close>

definition getTokenInfo :: "'w Env \<Rightarrow> ('w, TokenInfo) Action" where
  "getTokenInfo env =
     catchA (bindA (callAPI env validate_options) (\<lambda>data. returnA (TokenInfo data)))
       token_info_catch"

subsection \<open>Reading the event log\<close>

text \<open>
  A dispatch is a call of the rate limiter or of \<^verbatim>\<open>fetch\<close>; its outcome is the response
  it resolved to or the error it rejected with.
\<close>

fun is_dispatch :: "Event \<Rightarrow> bool" where
  "is_dispatch (LimiterRequest q r) = True"
| "is_dispatch (Fetch rq r) = True"
| "is_dispatch (GetAccessToken scopes r) = False"
| "is_dispatch (Refresh r) = False"

fun dispatch_outcome :: "Event \<Rightarrow> (Error + Response) option" where
  "dispatch_outcome (LimiterRequest q r) = Some r"
| "dispatch_outcome (Fetch rq r) = Some r"
| "dispatch_outcome (GetAccessToken scopes r) = None"
| "dispatch_outcome (Refresh r) = None"

fun is_refresh :: "Event \<Rightarrow> bool" where
  "is_refresh (Refresh r) = True"
| "is_refresh (LimiterRequest q r) = False"
| "is_refresh (Fetch rq r) = False"
| "is_refresh (GetAccessToken scopes r) = False"

text \<open>
  The event of \<^verbatim>\<open>_callAPIInternal(options, authProvider.clientId, token)\<close> with outcome
  \<open>r\<close>: the descriptor handed to the rate limiter for a Helix call, the built request
  handed to \<^verbatim>\<open>fetch\<close> otherwise.
\<close>

definition dispatch_event ::
  "'w Env \<Rightarrow> TwitchAPICallOptions \<Rightarrow> string \<Rightarrow> Error + Response \<Rightarrow> Event" where
  "dispatch_event env options token r =
     (if opt_type options = Some Helix
      then LimiterRequest
             \<lparr>int_options = options, int_clientId = Some (env_clientId env),
              int_accessToken = Some token\<rparr> r
      else Fetch
             (callAPIRaw_request (env_lib env) options (Some (env_clientId env)) (Some token)) r)"

text \<open>The scopes a call of \<^verbatim>\<open>getAccessToken\<close> asks for: none when the argument is left out.\<close>

definition scope_list :: "string list option \<Rightarrow> string list" where
  "scope_list scopes = (case scopes of None \<Rightarrow> [] | Some xs \<Rightarrow> xs)"

subsection \<open>A sample library and a scripted world, for concrete runs\<close>

text \<open>
  An instance of the external functions for the examples below. Its \<^verbatim>\<open>stringify\<close> joins
  \<^verbatim>\<open>key=value\<close> pairs with \<^verbatim>\<open>&\<close>, repeating the key of an array and skipping
  \<^verbatim>\<open>undefined\<close>, without escaping; its \<^verbatim>\<open>JSON.stringify\<close> prints without escaping; its
  \<^verbatim>\<open>JSON.parse\<close> reads the five documents the examples use and takes every other text
  for malformed. The theorems about the client hold for every instance.
\<close>

fun join_with :: "string \<Rightarrow> string list \<Rightarrow> string" where
  "join_with sep [] = []"
| "join_with sep [x] = x"
| "join_with sep (x # y # ys) = x @ sep @ join_with sep (y # ys)"

fun sample_pairs :: "QSRecord \<Rightarrow> string list" where
  "sample_pairs [] = []"
| "sample_pairs ((k, QString v) # kvs) = (k @ ''='' @ v) # sample_pairs kvs"
| "sample_pairs ((k, QArray vs) # kvs) = map (\<lambda>v. k @ ''='' @ v) vs @ sample_pairs kvs"
| "sample_pairs ((k, QUndefined) # kvs) = sample_pairs kvs"

definition sample_stringify :: "QSRecord option \<Rightarrow> string option \<Rightarrow> string" where
  "sample_stringify q arrayFormat =
     (case q of None \<Rightarrow> [] | Some kvs \<Rightarrow> join_with ''&'' (sample_pairs kvs))"

fun sample_JSON_stringify :: "JSON \<Rightarrow> string" where
  "sample_JSON_stringify JNull = ''null''"
| "sample_JSON_stringify (JBool b) = (if b then ''true'' else ''false'')"
| "sample_JSON_stringify (JNumber n) = Number_toString n"
| "sample_JSON_stringify (JString s) = CHR 0x22 # s @ [CHR 0x22]"
| "sample_JSON_stringify (JArray xs) =
     ''['' @ join_with '','' (map sample_JSON_stringify xs) @ '']''"
| "sample_JSON_stringify (JObject kvs) =
     ''{'' @ join_with '',''
              (map (\<lambda>(k, v). CHR 0x22 # k @ [CHR 0x22] @ '':'' @ sample_JSON_stringify v) kvs)
       @ ''}''"

definition sample_JSON_parse :: "string \<Rightarrow> JSON option" where
  "sample_JSON_parse s =
     (if s = ''null'' then Some JNull
      else if s = ''true'' then Some (JBool True)
      else if s = ''false'' then Some (JBool False)
      else if s = ''[]'' then Some (JArray [])
      else if s = ''{}'' then Some (JObject [])
      else None)"

definition sample_lib :: Lib where
  "sample_lib =
     \<lparr>stringify = sample_stringify, JSON_stringify = sample_JSON_stringify,
      JSON_parse = sample_JSON_parse\<rparr>"

text \<open>
  A world that plays a script: the outcomes of the successive calls of
  \<^verbatim>\<open>getAccessToken\<close>, of \<^verbatim>\<open>refresh\<close>, and of the dispatches (through the rate limiter or
  \<^verbatim>\<open>fetch\<close> alike). A provider with no outcome left supplies no token; a refresh or a
  dispatch with no outcome left fails.
\<close>

record World =
  w_tokens :: "(Error + AccessToken option) list"
  w_refreshes :: "(Error + AccessToken) list"
  w_responses :: "(Error + Response) list"

definition next_token :: "World \<Rightarrow> (Error + AccessToken option) \<times> World" where
  "next_token w =
     (case w_tokens w of
        [] \<Rightarrow> (Inr None, w)
      | t # ts \<Rightarrow> (t, w\<lparr>w_tokens := ts\<rparr>))"

definition next_refresh :: "World \<Rightarrow> (Error + AccessToken) \<times> World" where
  "next_refresh w =
     (case w_refreshes w of
        [] \<Rightarrow> (Inl (CollaboratorError ''refresh failed''), w)
      | t # ts \<Rightarrow> (t, w\<lparr>w_refreshes := ts\<rparr>))"

definition next_response :: "World \<Rightarrow> (Error + Response) \<times> World" where
  "next_response w =
     (case w_responses w of
        [] \<Rightarrow> (Inl (CollaboratorError ''network error''), w)
      | r # rs \<Rightarrow> (r, w\<lparr>w_responses := rs\<rparr>))"

text \<open>A client of the scripted world, with or without a \<^verbatim>\<open>refresh\<close> method.\<close>

definition scripted_env :: "bool \<Rightarrow> World Env" where
  "scripted_env refreshable =
     \<lparr>env_lib = sample_lib,
      env_fetch = (\<lambda>rq. next_response),
      env_limiter = (\<lambda>q. next_response),
      env_getAccessToken = (\<lambda>scopes. next_token),
      env_refresh = (if refreshable then Some next_refresh else None),
      env_clientId = ''abc''\<rparr>"

definition fresh_token :: "string \<Rightarrow> AccessToken" where
  "fresh_token s = \<lparr>tok_accessToken = s, tok_isExpired = False\<rparr>"

definition http_response :: "nat \<Rightarrow> string \<Rightarrow> string \<Rightarrow> Response" where
  "http_response code statusText body =
     \<lparr>resp_status = code, resp_statusText = statusText, resp_text = body\<rparr>"

text \<open>The worlds and the requests of the concrete runs.\<close>

definition streams_request :: "string option \<Rightarrow> Request" where
  "streams_request authorization =
     \<lparr>req_url = ''https://api.twitch.tv/kraken/streams'', req_method = GET,
      req_headers =
        [(''Accept'', ''application/vnd.twitchtv.v5+json''), (''Client-ID'', ''abc'')]
          @ (case authorization of None \<Rightarrow> [] | Some a \<Rightarrow> [(''Authorization'', a)]),
      req_body = None\<rparr>"

definition validate_request :: "string option \<Rightarrow> Request" where
  "validate_request authorization =
     \<lparr>req_url = ''https://id.twitch.tv/oauth2/validate'', req_method = GET,
      req_headers =
        (''Accept'', ''application/json'')
          # (case authorization of None \<Rightarrow> [] | Some a \<Rightarrow> [(''Authorization'', a)]),
      req_body = None\<rparr>"

definition ok_world :: World where
  "ok_world =
     \<lparr>w_tokens = [Inr (Some (fresh_token ''t1''))], w_refreshes = [],
      w_responses = [Inr (http_response 200 ''OK'' ''[]'')]\<rparr>"

definition invalid_token_world :: World where
  "invalid_token_world =
     \<lparr>w_tokens = [Inr (Some (fresh_token ''t1''))], w_refreshes = [],
      w_responses = [Inr (http_response 401 ''Unauthorized'' ''{}'')]\<rparr>"

definition server_error_world :: World where
  "server_error_world =
     \<lparr>w_tokens = [Inr (Some (fresh_token ''t1''))], w_refreshes = [],
      w_responses = [Inr (http_response 500 ''Internal Server Error'' ''{}'')]\<rparr>"

definition retry_world :: World where
  "retry_world =
     \<lparr>w_tokens = [Inr (Some (fresh_token ''t1'')), Inr (Some (fresh_token ''t2''))],
      w_refreshes = [Inr (fresh_token ''t2'')],
      w_responses =
        [Inr (http_response 401 ''Unauthorized'' ''{}''), Inr (http_response 200 ''OK'' ''[]'')]\<rparr>"

definition twice_unauthorized_world :: World where
  "twice_unauthorized_world =
     \<lparr>w_tokens = [Inr (Some (fresh_token ''t1'')), Inr (Some (fresh_token ''t2''))],
      w_refreshes = [Inr (fresh_token ''t2''), Inr (fresh_token ''t3'')],
      w_responses =
        [Inr (http_response 401 ''Unauthorized'' ''{}''),
         Inr (http_response 401 ''Unauthorized'' ''{}''),
         Inr (http_response 200 ''OK'' ''[]'')]\<rparr>"

definition no_token_world :: World where
  "no_token_world =
     \<lparr>w_tokens = [Inr None], w_refreshes = [Inr (fresh_token ''t2'')],
      w_responses =
        [Inr (http_response 401 ''Unauthorized'' ''{}''), Inr (http_response 200 ''OK'' ''[]'')]\<rparr>"

definition finished_world :: World where
  "finished_world = \<lparr>w_tokens = [], w_refreshes = [], w_responses = []\<rparr>"

section \<open>Properties of the request builder\<close>

subsection \<open>Headers of the built request\<close>

lemma header_values_Nil [simp]: "header_values [] name = []"
  by (simp add: header_values_def)

lemma header_values_Cons [simp]:
  "header_values ((k, v) # h) name =
     (if k = name then v # header_values h name else header_values h name)"
  by (simp add: header_values_def)

lemma header_values_append [simp]:
  "header_values (Headers_append h k v) name =
     header_values h name @ (if k = name then [v] else [])"
  by (simp add: header_values_def Headers_append_def)

lemma req_headers_request:
  "req_headers (callAPIRaw_request L options clientId accessToken) =
     authorization_header (call_type options) accessToken
       (client_id_header (call_type options) clientId
          (snd (body_and_content_type L options (accept_header options))))"
  by (simp add: callAPIRaw_request_def Let_def split: prod.splits)

lemma req_body_request:
  "req_body (callAPIRaw_request L options clientId accessToken) =
     fst (body_and_content_type L options (accept_header options))"
  by (simp add: callAPIRaw_request_def Let_def split: prod.splits)

lemma req_url_request:
  "req_url (callAPIRaw_request L options clientId accessToken) =
     (if stringify L (opt_query options) (Some ''repeat'') \<noteq> []
      then getUrl (opt_url options) (call_type options) @ ''?''
             @ stringify L (opt_query options) (Some ''repeat'')
      else getUrl (opt_url options) (call_type options))"
  by (simp add: callAPIRaw_request_def Let_def split: prod.splits)

lemma accept_values_authorization [simp]:
  "header_values (authorization_header ty accessToken h) ''Accept'' = header_values h ''Accept''"
  by (simp add: authorization_header_def split: option.splits)

lemma accept_values_client_id [simp]:
  "header_values (client_id_header ty clientId h) ''Accept'' = header_values h ''Accept''"
  by (simp add: client_id_header_def split: option.splits)

lemma accept_values_content_type [simp]:
  "header_values (snd (body_and_content_type L options h)) ''Accept'' = header_values h ''Accept''"
  by (simp add: body_and_content_type_def split: option.splits)

lemma content_type_values:
  "header_values (req_headers (callAPIRaw_request L options clientId accessToken)) ''Content-Type'' =
     header_values (snd (body_and_content_type L options (accept_header options))) ''Content-Type''"
  by (simp add: req_headers_request authorization_header_def client_id_header_def
      split: option.splits)

subsection \<open>The Accept header\<close>

text \<open>
  C4, as the code has it. The \<^verbatim>\<open>Accept\<close> header of every built request has one value. For
  the Kraken group (also when the type is left out) it is the vendor media type with the
  descriptor's version when that is given and not zero, and with version 5 when the
  version is left out or is zero (\<^verbatim>\<open>options.version || 5\<close>); version 7 prints as \<^verbatim>\<open>7\<close>. For
  every other group, the custom group included, it is \<^verbatim>\<open>application/json\<close>.
\<close>

theorem accept_header_of_request:
  "header_values (req_headers (callAPIRaw_request L options clientId accessToken)) ''Accept'' =
     [if call_type options = Kraken
      then ''application/vnd.twitchtv.v''
             @ Number_toString
                 (case opt_version options of
                    None \<Rightarrow> 5
                  | Some v \<Rightarrow> if v = 0 then 5 else v)
             @ ''+json''
      else ''application/json'']
   \<and> Number_toString 5 = ''5'' \<and> Number_toString 7 = ''7''"
proof -
  have five: "Number_toString 5 = ''5''" and seven: "Number_toString 7 = ''7''"
    by (simp_all add: Number_toString_def string_of_nat.simps)
  have "version_or_default (opt_version options) =
          (case opt_version options of None \<Rightarrow> 5 | Some v \<Rightarrow> if v = 0 then 5 else v)"
    by (simp add: version_or_default_def truthy_number_def split: option.splits)
  then show ?thesis
    using five seven by (simp add: req_headers_request accept_header_def)
qed

text \<open>
  C4 on three requests: Kraken with version 7, Kraken with the version left out (and the
  type too), and Helix, where the version is ignored.
\<close>

theorem accept_header_of_request_witness:
  "header_values
     (req_headers (callAPIRaw_request sample_lib
        ((call_options ''streams'')\<lparr>opt_type := Some Kraken, opt_version := Some 7\<rparr>)
        (Some ''abc'') None)) ''Accept''
     = [''application/vnd.twitchtv.v7+json'']
   \<and> header_values
       (req_headers (callAPIRaw_request sample_lib (call_options ''streams'') (Some ''abc'') None))
       ''Accept''
     = [''application/vnd.twitchtv.v5+json'']
   \<and> header_values
       (req_headers (callAPIRaw_request sample_lib
          ((call_options ''users'')\<lparr>opt_type := Some Helix, opt_version := Some 7\<rparr>)
          (Some ''abc'') None)) ''Accept''
     = [''application/json'']"
  using accept_header_of_request
      [of sample_lib "(call_options ''streams'')\<lparr>opt_type := Some Kraken, opt_version := Some 7\<rparr>"
        "Some ''abc''" None]
    accept_header_of_request [of sample_lib "call_options ''streams''" "Some ''abc''" None]
    accept_header_of_request
      [of sample_lib "(call_options ''users'')\<lparr>opt_type := Some Helix, opt_version := Some 7\<rparr>"
        "Some ''abc''" None]
  by (simp add: call_options_def call_type_def)

text \<open>
  C4 as stated fails for the version 0: the descriptor's version is a number, it is not
  left out, and the header names version 5, not version 0.
\<close>

theorem accept_header_version_zero:
  "header_values
     (req_headers (callAPIRaw_request sample_lib
        ((call_options ''streams'')\<lparr>opt_type := Some Kraken, opt_version := Some 0\<rparr>) None None))
     ''Accept''
     = [''application/vnd.twitchtv.v5+json'']
   \<and> header_values
     (req_headers (callAPIRaw_request sample_lib
        ((call_options ''streams'')\<lparr>opt_type := Some Kraken, opt_version := Some 0\<rparr>) None None))
     ''Accept''
     \<noteq> [''application/vnd.twitchtv.v'' @ Number_toString 0 @ ''+json'']"
  by code_simp

subsection \<open>The body and its content type\<close>

text \<open>
  A form body is URL-encoded and gets the form content type, whatever the JSON body is.
\<close>

lemma form_body_request:
  "opt_body options = Some b \<Longrightarrow>
     req_body (callAPIRaw_request L options clientId accessToken) = Some (stringify L (Some b) None)
     \<and> header_values (req_headers (callAPIRaw_request L options clientId accessToken))
           ''Content-Type''
         = [''application/x-www-form-urlencoded'']"
  by (simp add: req_body_request content_type_values body_and_content_type_def accept_header_def)

text \<open>Without a form body, a truthy JSON body is serialized and gets the JSON content type.\<close>

lemma json_body_request:
  "opt_body options = None \<Longrightarrow> opt_jsonBody options = Some j \<Longrightarrow> truthy_value j \<Longrightarrow>
     req_body (callAPIRaw_request L options clientId accessToken) = Some (JSON_stringify L j)
     \<and> header_values (req_headers (callAPIRaw_request L options clientId accessToken))
           ''Content-Type''
         = [''application/json'']"
  by (simp add: req_body_request content_type_values body_and_content_type_def accept_header_def)

text \<open>
  Without a form body, a falsy JSON body (\<^verbatim>\<open>null\<close>, \<^verbatim>\<open>false\<close>, \<^verbatim>\<open>0\<close>, the empty string) is
  dropped: the request has no body and no content type.
\<close>

lemma falsy_json_body_request:
  "opt_body options = None \<Longrightarrow> opt_jsonBody options = Some j \<Longrightarrow> \<not> truthy_value j \<Longrightarrow>
     req_body (callAPIRaw_request L options clientId accessToken) = None
     \<and> header_values (req_headers (callAPIRaw_request L options clientId accessToken))
           ''Content-Type''
         = []"
  by (simp add: req_body_request content_type_values body_and_content_type_def accept_header_def)

lemma truthy_value_falsy:
  "truthy_value j = (j \<noteq> JNull \<and> j \<noteq> JBool False \<and> j \<noteq> JNumber 0 \<and> j \<noteq> JString [])"
  by (cases j) auto

text \<open>
  C5, as the code has it. A descriptor with a form body builds a request whose body is the
  URL-encoded form body and whose content type is the form content type, whether or not it
  also has a JSON body. A descriptor with only a JSON body that is truthy builds a request
  whose body is the serialized JSON body and whose content type is the JSON content type.
  A descriptor with only a JSON body that is falsy, which is one of \<^verbatim>\<open>null\<close>, \<^verbatim>\<open>false\<close>,
  \<^verbatim>\<open>0\<close> and the empty string, builds a request with no body and no content type
  (\<^verbatim>\<open>else if (options.jsonBody)\<close>, line 366).
\<close>

theorem body_of_request:
  "(opt_body options = Some b \<longrightarrow>
      req_body (callAPIRaw_request L options clientId accessToken) = Some (stringify L (Some b) None)
      \<and> header_values (req_headers (callAPIRaw_request L options clientId accessToken))
            ''Content-Type''
          = [''application/x-www-form-urlencoded''])
   \<and> (opt_body options = None \<and> opt_jsonBody options = Some j \<and> truthy_value j \<longrightarrow>
      req_body (callAPIRaw_request L options clientId accessToken) = Some (JSON_stringify L j)
      \<and> header_values (req_headers (callAPIRaw_request L options clientId accessToken))
            ''Content-Type''
          = [''application/json''])
   \<and> (opt_body options = None \<and> opt_jsonBody options = Some j \<and> \<not> truthy_value j \<longrightarrow>
      req_body (callAPIRaw_request L options clientId accessToken) = None
      \<and> header_values (req_headers (callAPIRaw_request L options clientId accessToken))
            ''Content-Type''
          = [])
   \<and> truthy_value j = (j \<noteq> JNull \<and> j \<noteq> JBool False \<and> j \<noteq> JNumber 0 \<and> j \<noteq> JString [])"
  using form_body_request [of options b L clientId accessToken]
    json_body_request [of options j L clientId accessToken]
    falsy_json_body_request [of options j L clientId accessToken]
    truthy_value_falsy [of j]
  by blast

text \<open>
  C5 on three descriptors: a form body together with a JSON body, the JSON body \<^verbatim>\<open>{}\<close>
  alone, and the JSON body \<^verbatim>\<open>0\<close> alone.
\<close>

theorem body_of_request_witness:
  "req_body (callAPIRaw_request sample_lib
      ((call_options ''users/follows'')\<lparr>opt_method := Some POST,
         opt_body := Some [(''from_id'', QString ''1'')], opt_jsonBody := Some (JObject [])\<rparr>)
      (Some ''abc'') (Some ''t1'')) = Some ''from_id=1''
   \<and> header_values
       (req_headers (callAPIRaw_request sample_lib
          ((call_options ''users/follows'')\<lparr>opt_method := Some POST,
             opt_body := Some [(''from_id'', QString ''1'')], opt_jsonBody := Some (JObject [])\<rparr>)
          (Some ''abc'') (Some ''t1''))) ''Content-Type''
     = [''application/x-www-form-urlencoded'']
   \<and> req_body (callAPIRaw_request sample_lib
      ((call_options ''users/follows'')\<lparr>opt_method := Some POST, opt_jsonBody := Some (JObject [])\<rparr>)
      (Some ''abc'') (Some ''t1'')) = Some ''{}''
   \<and> header_values
       (req_headers (callAPIRaw_request sample_lib
          ((call_options ''users/follows'')\<lparr>opt_method := Some POST, opt_jsonBody := Some (JObject [])\<rparr>)
          (Some ''abc'') (Some ''t1''))) ''Content-Type''
     = [''application/json'']
   \<and> req_body (callAPIRaw_request sample_lib
      ((call_options ''users/follows'')\<lparr>opt_method := Some POST, opt_jsonBody := Some (JNumber 0)\<rparr>)
      (Some ''abc'') (Some ''t1'')) = None
   \<and> header_values
       (req_headers (callAPIRaw_request sample_lib
          ((call_options ''users/follows'')\<lparr>opt_method := Some POST, opt_jsonBody := Some (JNumber 0)\<rparr>)
          (Some ''abc'') (Some ''t1''))) ''Content-Type''
     = []"
  using body_of_request [of
        "(call_options ''users/follows'')\<lparr>opt_method := Some POST,
           opt_body := Some [(''from_id'', QString ''1'')], opt_jsonBody := Some (JObject [])\<rparr>"
        "[(''from_id'', QString ''1'')]" sample_lib "Some ''abc''" "Some ''t1''" "JObject []"]
    body_of_request [of
        "(call_options ''users/follows'')\<lparr>opt_method := Some POST, opt_jsonBody := Some (JObject [])\<rparr>"
        _ sample_lib "Some ''abc''" "Some ''t1''" "JObject []"]
    body_of_request [of
        "(call_options ''users/follows'')\<lparr>opt_method := Some POST, opt_jsonBody := Some (JNumber 0)\<rparr>"
        _ sample_lib "Some ''abc''" "Some ''t1''" "JNumber 0"]
  by (simp add: call_options_def sample_lib_def sample_stringify_def)

text \<open>
  C5 as stated fails for the descriptor
  \<^verbatim>\<open>{ type: Helix, url: 'users/follows', method: 'POST', jsonBody: false }\<close>, which supplies
  only a JSON body: the built request has no body and no \<^verbatim>\<open>Content-Type\<close> header, where
  the claim has the body \<^verbatim>\<open>false\<close> serialized with the JSON content type.
\<close>

theorem falsy_json_body_not_sent:
  "req_body (callAPIRaw_request sample_lib
      ((call_options ''users/follows'')\<lparr>opt_type := Some Helix, opt_method := Some POST,
         opt_jsonBody := Some (JBool False)\<rparr>) (Some ''abc'') (Some ''t1'')) = None
   \<and> header_values
       (req_headers (callAPIRaw_request sample_lib
          ((call_options ''users/follows'')\<lparr>opt_type := Some Helix, opt_method := Some POST,
             opt_jsonBody := Some (JBool False)\<rparr>) (Some ''abc'') (Some ''t1''))) ''Content-Type''
     = []
   \<and> JSON_stringify sample_lib (JBool False) = ''false''"
  by code_simp

subsection \<open>The client identifier and the authorization\<close>

text \<open>
  C6, as the code has it. A \<^verbatim>\<open>Client-ID\<close> header with the client identifier is attached
  when the identifier is given, is not the empty string, and the group is not the auth
  group; an \<^verbatim>\<open>Authorization\<close> header is attached when the access token is given and is not
  the empty string, with the scheme \<^verbatim>\<open>Bearer\<close> for Helix and \<^verbatim>\<open>OAuth\<close> for every other
  group. No such header is attached otherwise.
\<close>

theorem client_id_and_authorization_headers:
  "header_values (req_headers (callAPIRaw_request L options clientId accessToken)) ''Client-ID'' =
     (case clientId of
        None \<Rightarrow> []
      | Some c \<Rightarrow> if c \<noteq> [] \<and> call_type options \<noteq> Auth then [c] else [])
   \<and> header_values (req_headers (callAPIRaw_request L options clientId accessToken))
         ''Authorization'' =
     (case accessToken of
        None \<Rightarrow> []
      | Some t \<Rightarrow>
          if t \<noteq> []
          then [(if call_type options = Helix then ''Bearer '' else ''OAuth '') @ t]
          else [])"
  by (simp add: req_headers_request authorization_header_def client_id_header_def
      body_and_content_type_def accept_header_def split: option.splits)

text \<open>C6 on a Helix request and on a request to the auth group.\<close>

theorem client_id_and_authorization_headers_witness:
  "header_values
     (req_headers (callAPIRaw_request sample_lib ((call_options ''users'')\<lparr>opt_type := Some Helix\<rparr>)
        (Some ''abc'') (Some ''t1''))) ''Client-ID'' = [''abc'']
   \<and> header_values
     (req_headers (callAPIRaw_request sample_lib ((call_options ''users'')\<lparr>opt_type := Some Helix\<rparr>)
        (Some ''abc'') (Some ''t1''))) ''Authorization'' = [''Bearer t1'']
   \<and> header_values
     (req_headers (callAPIRaw_request sample_lib ((call_options ''validate'')\<lparr>opt_type := Some Auth\<rparr>)
        (Some ''abc'') (Some ''t1''))) ''Client-ID'' = []
   \<and> header_values
     (req_headers (callAPIRaw_request sample_lib ((call_options ''validate'')\<lparr>opt_type := Some Auth\<rparr>)
        (Some ''abc'') (Some ''t1''))) ''Authorization'' = [''OAuth t1'']"
  using client_id_and_authorization_headers
      [of sample_lib "(call_options ''users'')\<lparr>opt_type := Some Helix\<rparr>" "Some ''abc''" "Some ''t1''"]
    client_id_and_authorization_headers
      [of sample_lib "(call_options ''validate'')\<lparr>opt_type := Some Auth\<rparr>" "Some ''abc''" "Some ''t1''"]
  by (simp add: call_options_def call_type_def)

text \<open>
  C6 as stated fails for a client identifier and an access token that are passed as the
  empty string: they are present as arguments, the group is Helix, and neither header is
  attached.
\<close>

theorem empty_client_id_and_token_no_headers:
  "header_values
     (req_headers (callAPIRaw_request sample_lib ((call_options ''users'')\<lparr>opt_type := Some Helix\<rparr>)
        (Some []) (Some []))) ''Client-ID'' = []
   \<and> header_values
     (req_headers (callAPIRaw_request sample_lib ((call_options ''users'')\<lparr>opt_type := Some Helix\<rparr>)
        (Some []) (Some []))) ''Authorization'' = []"
  by code_simp

subsection \<open>The URL\<close>

text \<open>
  C7. The path is resolved against \<^verbatim>\<open>https://api.twitch.tv/helix/\<close> for Helix, against
  \<^verbatim>\<open>https://api.twitch.tv/kraken/\<close> for Kraken and against \<^verbatim>\<open>https://id.twitch.tv/oauth2/\<close>
  for the auth group, in each case with one leading slash removed when the path starts
  with a slash; for the custom group it is the path unchanged. The URL of the built
  request is this URL for the descriptor's path and group, followed by \<^verbatim>\<open>?\<close> and the
  query string when that is not empty.
\<close>

theorem getUrl_resolution:
  "getUrl path Helix = ''https://api.twitch.tv/helix/'' @ strip_leading_slash path
   \<and> getUrl path Kraken = ''https://api.twitch.tv/kraken/'' @ strip_leading_slash path
   \<and> getUrl path Auth = ''https://id.twitch.tv/oauth2/'' @ strip_leading_slash path
   \<and> getUrl path Custom = path
   \<and> strip_leading_slash path = (if path \<noteq> [] \<and> hd path = CHR ''/'' then tl path else path)
   \<and> req_url (callAPIRaw_request L options clientId accessToken) =
       (if stringify L (opt_query options) (Some ''repeat'') = []
        then getUrl (opt_url options) (call_type options)
        else getUrl (opt_url options) (call_type options) @ ''?''
               @ stringify L (opt_query options) (Some ''repeat''))"
proof -
  have "strip_leading_slash path = (if path \<noteq> [] \<and> hd path = CHR ''/'' then tl path else path)"
    by (cases path) simp_all
  then show ?thesis
    by (simp add: getUrl_def req_url_request)
qed

text \<open>C7 on one path for each group, and on a Helix request with a query.\<close>

theorem getUrl_resolution_witness:
  "getUrl ''/users'' Helix = ''https://api.twitch.tv/helix/users''
   \<and> getUrl ''streams'' Kraken = ''https://api.twitch.tv/kraken/streams''
   \<and> getUrl ''/validate'' Auth = ''https://id.twitch.tv/oauth2/validate''
   \<and> getUrl ''https://badges.twitch.tv/v1/badges/global/display'' Custom
       = ''https://badges.twitch.tv/v1/badges/global/display''
   \<and> req_url (callAPIRaw_request sample_lib
        ((call_options ''/users'')\<lparr>opt_type := Some Helix,
           opt_query := Some [(''login'', QArray [''a'', ''b''])]\<rparr>) None None)
       = ''https://api.twitch.tv/helix/users?login=a&login=b''"
  using getUrl_resolution [of "''/users''" sample_lib
      "(call_options ''/users'')\<lparr>opt_type := Some Helix,
           opt_query := Some [(''login'', QArray [''a'', ''b''])]\<rparr>" None None]
    getUrl_resolution [of "''streams''"] getUrl_resolution [of "''/validate''"]
    getUrl_resolution [of "''https://badges.twitch.tv/v1/badges/global/display''"]
  by (simp add: call_options_def call_type_def sample_lib_def sample_stringify_def)

subsection \<open>A call without a type\<close>

lemma call_type_update [simp]:
  "call_type (options\<lparr>opt_type := None\<rparr>) = Kraken"
  "call_type (options\<lparr>opt_type := Some ty\<rparr>) = ty"
  by (simp_all add: call_type_def)

lemma scopes_ignore_type [simp]:
  "initial_scopes (options\<lparr>opt_type := x\<rparr>) = initial_scopes options"
  "retry_scopes (options\<lparr>opt_type := x\<rparr>) = retry_scopes options"
  by (simp_all add: initial_scopes_def retry_scopes_def)

lemma body_ignores_type [simp]:
  "body_and_content_type L (options\<lparr>opt_type := x\<rparr>) h = body_and_content_type L options h"
  by (simp add: body_and_content_type_def cong: option.case_cong)

lemma accept_header_omitted_type:
  "accept_header (options\<lparr>opt_type := None\<rparr>) = accept_header (options\<lparr>opt_type := Some Kraken\<rparr>)"
  by (simp add: accept_header_def)

lemma request_omitted_type:
  "callAPIRaw_request L (options\<lparr>opt_type := None\<rparr>) clientId accessToken =
     callAPIRaw_request L (options\<lparr>opt_type := Some Kraken\<rparr>) clientId accessToken"
  unfolding callAPIRaw_request_def accept_header_omitted_type by simp

text \<open>
  C10. A descriptor without a type builds the same request as the descriptor with the type
  Kraken, and the whole authenticated call behaves the same for both. Spelled out for the
  descriptor without a type: the URL is under \<^verbatim>\<open>https://api.twitch.tv/kraken/\<close>, the
  \<^verbatim>\<open>Accept\<close> header is the Kraken vendor media type, an \<^verbatim>\<open>Authorization\<close> header, when one
  is attached, has the scheme \<^verbatim>\<open>OAuth\<close>, and \<^verbatim>\<open>_callAPIInternal\<close> calls \<^verbatim>\<open>fetch\<close> with the
  built request: its only event is that \<^verbatim>\<open>fetch\<close>, the rate limiter is not called.
\<close>

theorem omitted_type_is_kraken:
  "callAPIRaw_request L (options\<lparr>opt_type := None\<rparr>) clientId accessToken =
     callAPIRaw_request L (options\<lparr>opt_type := Some Kraken\<rparr>) clientId accessToken
   \<and> callAPI env (options\<lparr>opt_type := None\<rparr>) = callAPI env (options\<lparr>opt_type := Some Kraken\<rparr>)
   \<and> req_url (callAPIRaw_request L (options\<lparr>opt_type := None\<rparr>) clientId accessToken) =
       ''https://api.twitch.tv/kraken/'' @ strip_leading_slash (opt_url options)
         @ (if stringify L (opt_query options) (Some ''repeat'') = [] then []
            else ''?'' @ stringify L (opt_query options) (Some ''repeat''))
   \<and> header_values
       (req_headers (callAPIRaw_request L (options\<lparr>opt_type := None\<rparr>) clientId accessToken))
       ''Accept''
     = [''application/vnd.twitchtv.v'' @ Number_toString (version_or_default (opt_version options))
          @ ''+json'']
   \<and> header_values
       (req_headers (callAPIRaw_request L (options\<lparr>opt_type := None\<rparr>) clientId accessToken))
       ''Authorization''
     = (case accessToken of None \<Rightarrow> [] | Some t \<Rightarrow> if t \<noteq> [] then [''OAuth '' @ t] else [])
   \<and> callAPIInternal env (options\<lparr>opt_type := None\<rparr>) clientId accessToken w =
       (case env_fetch env
               (callAPIRaw_request (env_lib env) (options\<lparr>opt_type := None\<rparr>) clientId accessToken) w
        of (r, w1) \<Rightarrow>
          (r, w1,
           [Fetch (callAPIRaw_request (env_lib env) (options\<lparr>opt_type := None\<rparr>) clientId
              accessToken) r]))"
proof -
  have internal: "callAPIInternal env (options\<lparr>opt_type := None\<rparr>) c t =
      callAPIInternal env (options\<lparr>opt_type := Some Kraken\<rparr>) c t" for c t
    by (simp add: callAPIInternal_def callAPIRaw_def request_omitted_type)
  have static: "static_callAPI env (options\<lparr>opt_type := None\<rparr>) c t =
      static_callAPI env (options\<lparr>opt_type := Some Kraken\<rparr>) c t" for c t
    by (simp add: static_callAPI_def callAPIRaw_def request_omitted_type)
  have handle: "handle_unauthorized env (options\<lparr>opt_type := None\<rparr>) r =
      handle_unauthorized env (options\<lparr>opt_type := Some Kraken\<rparr>) r" for r
    unfolding handle_unauthorized_def internal by (simp cong: if_cong)
  have whole: "callAPI env (options\<lparr>opt_type := None\<rparr>) =
      callAPI env (options\<lparr>opt_type := Some Kraken\<rparr>)"
    unfolding callAPI_def internal static handle by (simp cong: if_cong option.case_cong)
  have url: "req_url (callAPIRaw_request L (options\<lparr>opt_type := None\<rparr>) clientId accessToken) =
       ''https://api.twitch.tv/kraken/'' @ strip_leading_slash (opt_url options)
         @ (if stringify L (opt_query options) (Some ''repeat'') = [] then []
            else ''?'' @ stringify L (opt_query options) (Some ''repeat''))"
    by (simp add: req_url_request getUrl_def)
  have accept: "header_values
       (req_headers (callAPIRaw_request L (options\<lparr>opt_type := None\<rparr>) clientId accessToken))
       ''Accept''
     = [''application/vnd.twitchtv.v'' @ Number_toString (version_or_default (opt_version options))
          @ ''+json'']"
    by (simp add: req_headers_request accept_header_def)
  have authorization: "header_values
       (req_headers (callAPIRaw_request L (options\<lparr>opt_type := None\<rparr>) clientId accessToken))
       ''Authorization''
     = (case accessToken of None \<Rightarrow> [] | Some t \<Rightarrow> if t \<noteq> [] then [''OAuth '' @ t] else [])"
    by (simp add: req_headers_request authorization_header_def client_id_header_def
        body_and_content_type_def accept_header_def split: option.splits)
  have bypass: "callAPIInternal env (options\<lparr>opt_type := None\<rparr>) clientId accessToken w =
       (case env_fetch env
               (callAPIRaw_request (env_lib env) (options\<lparr>opt_type := None\<rparr>) clientId accessToken) w
        of (r, w1) \<Rightarrow>
          (r, w1,
           [Fetch (callAPIRaw_request (env_lib env) (options\<lparr>opt_type := None\<rparr>) clientId
              accessToken) r]))"
    by (simp add: callAPIInternal_def callAPIRaw_def fetch_call_def)
  show ?thesis
    using request_omitted_type whole url accept authorization bypass by blast
qed

text \<open>
  C10 on the descriptor \<^verbatim>\<open>{ url: 'streams' }\<close>: the request it builds, the same request
  for the type Kraken, and its dispatch, which is one call of \<^verbatim>\<open>fetch\<close>.
\<close>

theorem omitted_type_is_kraken_witness:
  "callAPIRaw_request sample_lib (call_options ''streams'') (Some ''abc'') (Some ''t1'')
     = streams_request (Some ''OAuth t1'')
   \<and> callAPIRaw_request sample_lib ((call_options ''streams'')\<lparr>opt_type := Some Kraken\<rparr>)
       (Some ''abc'') (Some ''t1'')
     = streams_request (Some ''OAuth t1'')
   \<and> callAPIInternal (scripted_env True) (call_options ''streams'') (Some ''abc'') (Some ''t1'')
       ok_world
     = (Inr (http_response 200 ''OK'' ''[]''), ok_world\<lparr>w_responses := []\<rparr>,
        [Fetch (streams_request (Some ''OAuth t1'')) (Inr (http_response 200 ''OK'' ''[]''))])"
proof -
  have same: "(call_options ''streams'')\<lparr>opt_type := None\<rparr> = call_options ''streams''"
    by (simp add: call_options_def)
  have built: "callAPIRaw_request sample_lib ((call_options ''streams'')\<lparr>opt_type := Some Kraken\<rparr>)
       (Some ''abc'') (Some ''t1'')
     = streams_request (Some ''OAuth t1'')"
    by code_simp
  have fetched: "env_fetch (scripted_env True) (streams_request (Some ''OAuth t1'')) ok_world
     = (Inr (http_response 200 ''OK'' ''[]''), ok_world\<lparr>w_responses := []\<rparr>)"
    by code_simp
  have lib: "env_lib (scripted_env True) = sample_lib"
    by (simp add: scripted_env_def)
  show ?thesis
    using omitted_type_is_kraken [of sample_lib "call_options ''streams''" "Some ''abc''"
        "Some ''t1''" "scripted_env True" ok_world]
      same built fetched lib
    by simp
qed

section \<open>Properties of the response decoder\<close>

text \<open>
  C2. A response whose status is outside 200 to 299 is decoded to an error: when its
  body parses as JSON, to the \<^verbatim>\<open>HTTPStatusCodeError\<close> made of the response's status code,
  its status text and the parsed body; when the body does not parse, to the parser's
  own error, which nothing catches.
\<close>

theorem transformResponse_not_ok:
  assumes "resp_status response < 200 \<or> 299 < resp_status response"
  shows "transformResponse L response =
     (case JSON_parse L (resp_text response) of
        None \<Rightarrow> Inl SyntaxError
      | Some payload \<Rightarrow>
          Inl (HTTPStatusCodeError (resp_status response) (resp_statusText response) payload))"
proof -
  have "\<not> resp_ok response"
    using assms by (auto simp: resp_ok_def)
  then show ?thesis
    by (simp add: transformResponse_def)
qed

text \<open>C2 on a 404 with a JSON body and on a 502 with an HTML body.\<close>

theorem transformResponse_not_ok_witness:
  "transformResponse sample_lib (http_response 404 ''Not Found'' ''{}'')
     = Inl (HTTPStatusCodeError 404 ''Not Found'' (JObject []))
   \<and> transformResponse sample_lib (http_response 502 ''Bad Gateway'' ''<html>'') = Inl SyntaxError"
proof -
  have a: "resp_status (http_response 404 ''Not Found'' ''{}'') < 200
           \<or> 299 < resp_status (http_response 404 ''Not Found'' ''{}'')"
    by (simp add: http_response_def)
  have b: "resp_status (http_response 502 ''Bad Gateway'' ''<html>'') < 200
           \<or> 299 < resp_status (http_response 502 ''Bad Gateway'' ''<html>'')"
    by (simp add: http_response_def)
  show ?thesis
    using transformResponse_not_ok [OF a, of sample_lib]
      transformResponse_not_ok [OF b, of sample_lib]
    by (simp add: http_response_def sample_lib_def sample_JSON_parse_def)
qed

text \<open>
  C3. A response with status 204 is decoded to \<^verbatim>\<open>undefined\<close>, and so is a response
  with a status from 200 to 299 and an empty body; neither is an error. Every other
  response with a status from 200 to 299 is decoded to its body parsed as JSON, or to the
  parser's error when the body is malformed.
\<close>

theorem transformResponse_success:
  "(resp_status response = 204 \<longrightarrow> transformResponse L response = Inr None)
   \<and> (200 \<le> resp_status response \<and> resp_status response \<le> 299 \<and> resp_text response = []
        \<longrightarrow> transformResponse L response = Inr None)
   \<and> (200 \<le> resp_status response \<and> resp_status response \<le> 299 \<and> resp_status response \<noteq> 204
        \<and> resp_text response \<noteq> []
        \<longrightarrow> transformResponse L response =
              (case JSON_parse L (resp_text response) of
                 None \<Rightarrow> Inl SyntaxError
               | Some v \<Rightarrow> Inr (Some v)))"
proof -
  have no_content: "transformResponse L response = Inr None" if "resp_status response = 204"
    using that by (simp add: transformResponse_def resp_ok_def)
  have empty_body: "transformResponse L response = Inr None"
    if "200 \<le> resp_status response" "resp_status response \<le> 299" "resp_text response = []"
    using that by (simp add: transformResponse_def resp_ok_def)
  have parsed: "transformResponse L response =
              (case JSON_parse L (resp_text response) of
                 None \<Rightarrow> Inl SyntaxError
               | Some v \<Rightarrow> Inr (Some v))"
    if "200 \<le> resp_status response" "resp_status response \<le> 299"
      "resp_status response \<noteq> 204" "resp_text response \<noteq> []"
    using that by (simp add: transformResponse_def resp_ok_def)
  show ?thesis
    using no_content empty_body parsed by blast
qed

text \<open>
  C3 on a 204 (whose body is not read), on a 200 with an empty body, on a 200 with a JSON
  array and on a 200 with an HTML body.
\<close>

theorem transformResponse_success_witness:
  "transformResponse sample_lib (http_response 204 ''No Content'' ''ignored'') = Inr None
   \<and> transformResponse sample_lib (http_response 200 ''OK'' []) = Inr None
   \<and> transformResponse sample_lib (http_response 200 ''OK'' ''[]'') = Inr (Some (JArray []))
   \<and> transformResponse sample_lib (http_response 200 ''OK'' ''<html>'') = Inl SyntaxError"
  using transformResponse_success [of "http_response 204 ''No Content'' ''ignored''" sample_lib]
    transformResponse_success [of "http_response 200 ''OK'' []" sample_lib]
    transformResponse_success [of "http_response 200 ''OK'' ''[]''" sample_lib]
    transformResponse_success [of "http_response 200 ''OK'' ''<html>''" sample_lib]
  by (simp add: http_response_def sample_lib_def sample_JSON_parse_def)

section \<open>Properties of the token introspection\<close>

lemma token_info_catch_run:
  "token_info_catch e w =
     (Inl (case e of
             HTTPStatusCodeError c st b \<Rightarrow> if c = 401 then InvalidTokenError else e
           | _ \<Rightarrow> e), w, [])"
  by (simp add: token_info_catch_def throwA_def split: Error.splits)

lemma catch_token_info:
  assumes "m w = (Inl e, w1, evs)"
  shows "catchA (bindA m (\<lambda>data. returnA (TokenInfo data))) token_info_catch w =
     (Inl (case e of
             HTTPStatusCodeError c st b \<Rightarrow> if c = 401 then InvalidTokenError else e
           | _ \<Rightarrow> e), w1, evs)"
  using assms by (simp add: catchA_def bindA_def token_info_catch_run)

lemma static_callAPI_run:
  assumes "env_fetch env (callAPIRaw_request (env_lib env) options clientId accessToken) w
             = (Inr r, w1)"
  shows "static_callAPI env options clientId accessToken w =
     (transformResponse (env_lib env) r, w1,
      [Fetch (callAPIRaw_request (env_lib env) options clientId accessToken) (Inr r)])"
  using assms
  by (simp add: static_callAPI_def bindA_def callAPIRaw_def fetch_call_def resultA_def)

text \<open>
  C8. For the static \<^verbatim>\<open>getTokenInfo\<close> and for the instance \<^verbatim>\<open>getTokenInfo\<close> alike: when the
  validate call fails with the HTTP-status error of status 401, the result is
  \<^verbatim>\<open>InvalidTokenError\<close>, which is not an HTTP-status error; when it fails with any other
  error, the result is that error; the state of the world and the events are those of the
  validate call. For the static variant this is also stated on the response: a 401 whose
  body parses as JSON gives \<^verbatim>\<open>InvalidTokenError\<close>. (A 401 whose body does not parse fails
  with the parser's error, which is one of the other errors.)
\<close>

theorem getTokenInfo_errors:
  "(static_callAPI env validate_options clientId (Some accessToken) w
        = (Inl (HTTPStatusCodeError 401 statusText body), w1, evs)
      \<longrightarrow> static_getTokenInfo env accessToken clientId w = (Inl InvalidTokenError, w1, evs))
   \<and> (static_callAPI env validate_options clientId (Some accessToken) w = (Inl e, w1, evs)
        \<and> (\<forall>st b. e \<noteq> HTTPStatusCodeError 401 st b)
      \<longrightarrow> static_getTokenInfo env accessToken clientId w = (Inl e, w1, evs))
   \<and> (callAPI env validate_options w = (Inl (HTTPStatusCodeError 401 statusText body), w1, evs)
      \<longrightarrow> getTokenInfo env w = (Inl InvalidTokenError, w1, evs))
   \<and> (callAPI env validate_options w = (Inl e, w1, evs)
        \<and> (\<forall>st b. e \<noteq> HTTPStatusCodeError 401 st b)
      \<longrightarrow> getTokenInfo env w = (Inl e, w1, evs))
   \<and> (env_fetch env (callAPIRaw_request (env_lib env) validate_options clientId (Some accessToken)) w
          = (Inr r, w1)
        \<and> resp_status r = 401 \<and> JSON_parse (env_lib env) (resp_text r) = Some body
      \<longrightarrow> static_getTokenInfo env accessToken clientId w =
            (Inl InvalidTokenError, w1,
             [Fetch (callAPIRaw_request (env_lib env) validate_options clientId (Some accessToken))
                (Inr r)]))
   \<and> InvalidTokenError \<noteq> HTTPStatusCodeError code statusText body"
proof -
  have other: "(case e of
             HTTPStatusCodeError c st b \<Rightarrow> if c = 401 then InvalidTokenError else e
           | _ \<Rightarrow> e) = e" if "\<forall>st b. e \<noteq> HTTPStatusCodeError 401 st b"
    using that by (cases e) auto
  have s1: "static_getTokenInfo env accessToken clientId w = (Inl InvalidTokenError, w1, evs)"
    if "static_callAPI env validate_options clientId (Some accessToken) w
        = (Inl (HTTPStatusCodeError 401 statusText body), w1, evs)"
    using catch_token_info [of "static_callAPI env validate_options clientId (Some accessToken)" w,
        OF that]
    by (simp add: static_getTokenInfo_def)
  have s2: "static_getTokenInfo env accessToken clientId w = (Inl e, w1, evs)"
    if "static_callAPI env validate_options clientId (Some accessToken) w = (Inl e, w1, evs)"
      and "\<forall>st b. e \<noteq> HTTPStatusCodeError 401 st b"
    using catch_token_info [of "static_callAPI env validate_options clientId (Some accessToken)" w,
        OF that(1)] other [OF that(2)]
    by (simp add: static_getTokenInfo_def)
  have i1: "getTokenInfo env w = (Inl InvalidTokenError, w1, evs)"
    if "callAPI env validate_options w = (Inl (HTTPStatusCodeError 401 statusText body), w1, evs)"
    using catch_token_info [of "callAPI env validate_options" w, OF that]
    by (simp add: getTokenInfo_def)
  have i2: "getTokenInfo env w = (Inl e, w1, evs)"
    if "callAPI env validate_options w = (Inl e, w1, evs)"
      and "\<forall>st b. e \<noteq> HTTPStatusCodeError 401 st b"
    using catch_token_info [of "callAPI env validate_options" w, OF that(1)] other [OF that(2)]
    by (simp add: getTokenInfo_def)
  have s3: "static_getTokenInfo env accessToken clientId w =
            (Inl InvalidTokenError, w1,
             [Fetch (callAPIRaw_request (env_lib env) validate_options clientId (Some accessToken))
                (Inr r)])"
    if "env_fetch env (callAPIRaw_request (env_lib env) validate_options clientId (Some accessToken)) w
          = (Inr r, w1)"
      and "resp_status r = 401" and "JSON_parse (env_lib env) (resp_text r) = Some body"
  proof -
    have "transformResponse (env_lib env) r = Inl (HTTPStatusCodeError 401 (resp_statusText r) body)"
      using that(2,3) by (simp add: transformResponse_def resp_ok_def)
    with static_callAPI_run [OF that(1)]
    have "static_callAPI env validate_options clientId (Some accessToken) w =
       (Inl (HTTPStatusCodeError 401 (resp_statusText r) body), w1,
        [Fetch (callAPIRaw_request (env_lib env) validate_options clientId (Some accessToken))
           (Inr r)])"
      by simp
    from catch_token_info [of "static_callAPI env validate_options clientId (Some accessToken)" w,
        OF this]
    show ?thesis
      by (simp add: static_getTokenInfo_def)
  qed
  show ?thesis
    using s1 s2 i1 i2 s3 by simp
qed

text \<open>
  C8 on four runs of a client without \<^verbatim>\<open>refresh\<close>: the static and the instance
  \<^verbatim>\<open>getTokenInfo\<close>, each against a 401 and against a 500.
\<close>

theorem getTokenInfo_errors_witness:
  "static_getTokenInfo (scripted_env False) ''t0'' (Some ''abc'') invalid_token_world =
     (Inl InvalidTokenError, invalid_token_world\<lparr>w_responses := []\<rparr>,
      [Fetch (validate_request (Some ''OAuth t0'')) (Inr (http_response 401 ''Unauthorized'' ''{}''))])
   \<and> static_getTokenInfo (scripted_env False) ''t0'' (Some ''abc'') server_error_world =
     (Inl (HTTPStatusCodeError 500 ''Internal Server Error'' (JObject [])),
      server_error_world\<lparr>w_responses := []\<rparr>,
      [Fetch (validate_request (Some ''OAuth t0''))
         (Inr (http_response 500 ''Internal Server Error'' ''{}''))])
   \<and> getTokenInfo (scripted_env False) invalid_token_world =
     (Inl InvalidTokenError, invalid_token_world\<lparr>w_tokens := [], w_responses := []\<rparr>,
      [GetAccessToken None (Inr (Some (fresh_token ''t1''))),
       Fetch (validate_request (Some ''OAuth t1'')) (Inr (http_response 401 ''Unauthorized'' ''{}''))])
   \<and> getTokenInfo (scripted_env False) server_error_world =
     (Inl (HTTPStatusCodeError 500 ''Internal Server Error'' (JObject [])),
      server_error_world\<lparr>w_tokens := [], w_responses := []\<rparr>,
      [GetAccessToken None (Inr (Some (fresh_token ''t1''))),
       Fetch (validate_request (Some ''OAuth t1''))
         (Inr (http_response 500 ''Internal Server Error'' ''{}''))])"
proof -
  have s401: "static_callAPI (scripted_env False) validate_options (Some ''abc'') (Some ''t0'')
       invalid_token_world =
     (Inl (HTTPStatusCodeError 401 ''Unauthorized'' (JObject [])),
      invalid_token_world\<lparr>w_responses := []\<rparr>,
      [Fetch (validate_request (Some ''OAuth t0'')) (Inr (http_response 401 ''Unauthorized'' ''{}''))])"
    by code_simp
  have s500: "static_callAPI (scripted_env False) validate_options (Some ''abc'') (Some ''t0'')
       server_error_world =
     (Inl (HTTPStatusCodeError 500 ''Internal Server Error'' (JObject [])),
      server_error_world\<lparr>w_responses := []\<rparr>,
      [Fetch (validate_request (Some ''OAuth t0''))
         (Inr (http_response 500 ''Internal Server Error'' ''{}''))])"
    by code_simp
  have i401: "callAPI (scripted_env False) validate_options invalid_token_world =
     (Inl (HTTPStatusCodeError 401 ''Unauthorized'' (JObject [])),
      invalid_token_world\<lparr>w_tokens := [], w_responses := []\<rparr>,
      [GetAccessToken None (Inr (Some (fresh_token ''t1''))),
       Fetch (validate_request (Some ''OAuth t1'')) (Inr (http_response 401 ''Unauthorized'' ''{}''))])"
    by code_simp
  have i500: "callAPI (scripted_env False) validate_options server_error_world =
     (Inl (HTTPStatusCodeError 500 ''Internal Server Error'' (JObject [])),
      server_error_world\<lparr>w_tokens := [], w_responses := []\<rparr>,
      [GetAccessToken None (Inr (Some (fresh_token ''t1''))),
       Fetch (validate_request (Some ''OAuth t1''))
         (Inr (http_response 500 ''Internal Server Error'' ''{}''))])"
    by code_simp
  show ?thesis
    using
      getTokenInfo_errors [of "scripted_env False" "Some ''abc''" "''t0''" invalid_token_world
        "''Unauthorized''" "JObject []" "invalid_token_world\<lparr>w_responses := []\<rparr>"
        "[Fetch (validate_request (Some ''OAuth t0''))
            (Inr (http_response 401 ''Unauthorized'' ''{}''))]"]
      getTokenInfo_errors [of "scripted_env False" "Some ''abc''" "''t0''" server_error_world
        _ _ "server_error_world\<lparr>w_responses := []\<rparr>"
        "[Fetch (validate_request (Some ''OAuth t0''))
            (Inr (http_response 500 ''Internal Server Error'' ''{}''))]"
        "HTTPStatusCodeError 500 ''Internal Server Error'' (JObject [])"]
      getTokenInfo_errors [of "scripted_env False" _ _ invalid_token_world
        "''Unauthorized''" "JObject []" "invalid_token_world\<lparr>w_tokens := [], w_responses := []\<rparr>"
        "[GetAccessToken None (Inr (Some (fresh_token ''t1''))),
          Fetch (validate_request (Some ''OAuth t1''))
            (Inr (http_response 401 ''Unauthorized'' ''{}''))]"]
      getTokenInfo_errors [of "scripted_env False" _ _ server_error_world
        _ _ "server_error_world\<lparr>w_tokens := [], w_responses := []\<rparr>"
        "[GetAccessToken None (Inr (Some (fresh_token ''t1''))),
          Fetch (validate_request (Some ''OAuth t1''))
            (Inr (http_response 500 ''Internal Server Error'' ''{}''))]"
        "HTTPStatusCodeError 500 ''Internal Server Error'' (JObject [])"]
      s401 s500 i401 i500
    by simp
qed

section \<open>Properties of the authenticated call\<close>

lemma callAPIInternal_run:
  "callAPIInternal env options (Some (env_clientId env)) (Some token) w = (r, w1, evs)
   \<Longrightarrow> evs = [dispatch_event env options token r]"
  by (auto simp: callAPIInternal_def limiter_call_def callAPIRaw_def fetch_call_def
      dispatch_event_def split: prod.splits if_splits)

lemma is_dispatch_dispatch_event [simp]: "is_dispatch (dispatch_event env options token r)"
  by (simp add: dispatch_event_def)

lemma dispatch_outcome_dispatch_event [simp]:
  "dispatch_outcome (dispatch_event env options token r) = Some r"
  by (simp add: dispatch_event_def)

text \<open>
  The handling of a 401 by a client whose provider has \<^verbatim>\<open>refresh\<close>: the events are one
  refresh, then (when it resolves) one \<^verbatim>\<open>getAccessToken\<close>, then (when that resolves to a
  token) one dispatch; the response handed on is the original one when no token came.
\<close>

lemma handle_unauthorized_run:
  assumes "handle_unauthorized env options r1 w = (x, w', post)"
    and "env_refresh env \<noteq> None" and "resp_status r1 = 401"
  shows "(\<exists>e. post = [Refresh (Inl e)] \<and> x = Inl e)
       \<or> (\<exists>t e. post = [Refresh (Inr t), GetAccessToken (retry_scopes options) (Inl e)]
              \<and> x = Inl e)
       \<or> (\<exists>t. post = [Refresh (Inr t), GetAccessToken (retry_scopes options) (Inr None)]
              \<and> x = Inr r1)
       \<or> (\<exists>t t2 z. post = [Refresh (Inr t), GetAccessToken (retry_scopes options) (Inr (Some t2)),
                dispatch_event env options (tok_accessToken t2) z] \<and> x = z)"
  using assms
  apply (simp add: handle_unauthorized_def bindA_def refresh_call_def getAccessToken_call_def
      returnA_def split: prod.splits sum.splits option.splits)
  apply (auto dest!: callAPIInternal_run)
  done

text \<open>
  Both acquisitions ask for the scope of the descriptor: the first passes \<^verbatim>\<open>undefined\<close>
  and the second the empty array when the descriptor has no scope.
\<close>

lemma scope_list_retry: "scope_list (retry_scopes options) = scope_list (initial_scopes options)"
  by (simp add: scope_list_def retry_scopes_def initial_scopes_def split: option.splits)

lemma unauthorized_is_error:
  "resp_status r = 401 \<Longrightarrow> \<exists>e. transformResponse L r = Inl e"
  by (simp add: transformResponse_def resp_ok_def split: option.splits)

text \<open>
  The token path. Take a call of \<^verbatim>\<open>callAPI\<close> by a client whose provider has
  \<^verbatim>\<open>refresh\<close>, in which the provider supplied a token at the start (the first event) and
  the first dispatch resolved to a response with status 401. Then the events after that
  dispatch, and the result of the call, are one of:
  \<^item> one refresh that rejected; the call fails with its error;
  \<^item> one refresh, then one \<^verbatim>\<open>getAccessToken\<close> for the descriptor's scope that rejected;
    the call fails with its error;
  \<^item> one refresh, then one \<^verbatim>\<open>getAccessToken\<close> for the descriptor's scope that supplied
    no token; the original response is decoded, which gives an error;
  \<^item> one refresh, then one \<^verbatim>\<open>getAccessToken\<close> for the descriptor's scope that supplied a
    token, then one dispatch of the same descriptor with the new token and nothing after
    it; its response is decoded, and when its status is again 401 the result is an error.

  The scopes asked for are those of the first acquisition.
\<close>

lemma callAPI_token_path:
  assumes run: "callAPI env options w = (res, w', evs)"
    and capable: "env_refresh env \<noteq> None"
    and acquired: "evs = GetAccessToken sc (Inr (Some t0)) # rest"
    and first: "dropWhile (\<lambda>e. \<not> is_dispatch e) rest = d1 # post"
    and unauthorized: "dispatch_outcome d1 = Some (Inr r1)" "resp_status r1 = 401"
  shows "scope_list (retry_scopes options) = scope_list sc \<and>
    ((\<exists>e. post = [Refresh (Inl e)] \<and> res = Inl e)
       \<or> (\<exists>t e. post = [Refresh (Inr t), GetAccessToken (retry_scopes options) (Inl e)]
              \<and> res = Inl e)
       \<or> (\<exists>t. post = [Refresh (Inr t), GetAccessToken (retry_scopes options) (Inr None)]
              \<and> res = transformResponse (env_lib env) r1 \<and> (\<exists>e. res = Inl e))
       \<or> (\<exists>t t2 z. post = [Refresh (Inr t), GetAccessToken (retry_scopes options) (Inr (Some t2)),
                dispatch_event env options (tok_accessToken t2) z]
              \<and> res = (case z of Inl e \<Rightarrow> Inl e | Inr r2 \<Rightarrow> transformResponse (env_lib env) r2)
              \<and> (\<forall>r2. z = Inr r2 \<and> resp_status r2 = 401 \<longrightarrow> (\<exists>e. res = Inl e))))"
proof -
  obtain x0 w0 where g: "env_getAccessToken env (initial_scopes options) w = (x0, w0)"
    by (cases "env_getAccessToken env (initial_scopes options) w")
  have x0: "x0 = Inr (Some t0)" and sc: "sc = initial_scopes options"
    using run acquired g
    by (auto simp: callAPI_def bindA_def getAccessToken_call_def split: sum.splits prod.splits)
  define pre where "pre = (if tok_isExpired t0 \<and> env_refresh env \<noteq> None
                  then refresh_call env else returnA t0)"
  obtain y1 w1 e1 where p: "pre w0 = (y1, w1, e1)"
    by (cases "pre w0")
  have e1: "\<forall>e \<in> set e1. \<not> is_dispatch e"
    using p capable
    by (auto simp: pre_def refresh_call_def returnA_def split: if_splits prod.splits)
  show ?thesis
  proof (cases y1)
    case (Inl e)
    then have "rest = e1"
      using run acquired g x0 p
      by (auto simp: callAPI_def bindA_def getAccessToken_call_def pre_def
          split: sum.splits prod.splits)
    then have "dropWhile (\<lambda>e. \<not> is_dispatch e) rest = []"
      using e1 by simp
    then show ?thesis using first by simp
  next
    case (Inr t1)
    obtain z1 w2 e2 where d: "callAPIInternal env options (Some (env_clientId env))
                    (Some (tok_accessToken t1)) w1 = (z1, w2, e2)"
      by (cases "callAPIInternal env options (Some (env_clientId env))
                    (Some (tok_accessToken t1)) w1")
    have e2: "e2 = [dispatch_event env options (tok_accessToken t1) z1]"
      using d by (rule callAPIInternal_run)
    show ?thesis
    proof (cases z1)
      case (Inl e)
      then have "rest = e1 @ e2"
        using run acquired g x0 p Inr d
        by (auto simp: callAPI_def bindA_def getAccessToken_call_def pre_def
            split: sum.splits prod.splits)
      then have "d1 = dispatch_event env options (tok_accessToken t1) z1"
        using first e1 e2 by simp
      then show ?thesis using unauthorized Inl by simp
    next
      case r: (Inr r1')
      obtain x3 w3 e3 where h: "handle_unauthorized env options r1' w2 = (x3, w3, e3)"
        by (cases "handle_unauthorized env options r1' w2")
      have rest: "rest = e1 @ e2 @ e3"
        and res: "res = (case x3 of Inl e \<Rightarrow> Inl e
                         | Inr r2 \<Rightarrow> transformResponse (env_lib env) r2)"
        using run acquired g x0 p Inr d r h
        by (auto simp: callAPI_def bindA_def getAccessToken_call_def pre_def resultA_def
            split: sum.splits prod.splits)
      have "dropWhile (\<lambda>e. \<not> is_dispatch e) rest = e2 @ e3"
        using rest e1 e2 by simp
      then have d1: "d1 = dispatch_event env options (tok_accessToken t1) z1"
        and post: "post = e3"
        using first e2 by simp_all
      have r1: "r1' = r1"
        using unauthorized d1 r by simp
      have scopes: "scope_list (retry_scopes options) = scope_list sc"
        using sc by (simp add: scope_list_retry)
      from handle_unauthorized_run [OF h [unfolded r1] capable unauthorized(2)]
      consider
        (refresh_failed) e where "e3 = [Refresh (Inl e)]" "x3 = Inl e"
      | (acquire_failed) t e where
          "e3 = [Refresh (Inr t), GetAccessToken (retry_scopes options) (Inl e)]" "x3 = Inl e"
      | (no_token) t where
          "e3 = [Refresh (Inr t), GetAccessToken (retry_scopes options) (Inr None)]" "x3 = Inr r1"
      | (redispatch) t t2 z where
          "e3 = [Refresh (Inr t), GetAccessToken (retry_scopes options) (Inr (Some t2)),
                dispatch_event env options (tok_accessToken t2) z]" "x3 = z"
        by blast
      then show ?thesis
      proof cases
        case refresh_failed
        then show ?thesis using res post scopes by simp
      next
        case acquire_failed
        then show ?thesis using res post scopes by simp
      next
        case no_token
        then show ?thesis
          using res post scopes unauthorized_is_error [OF unauthorized(2), of "env_lib env"]
          by simp
      next
        case redispatch
        have "\<forall>r2. z = Inr r2 \<and> resp_status r2 = 401 \<longrightarrow> (\<exists>e. res = Inl e)"
          using res redispatch(2) unauthorized_is_error [of _ "env_lib env"] by auto
        then have "post = [Refresh (Inr t), GetAccessToken (retry_scopes options) (Inr (Some t2)),
                dispatch_event env options (tok_accessToken t2) z]
              \<and> res = (case z of Inl e \<Rightarrow> Inl e | Inr r2 \<Rightarrow> transformResponse (env_lib env) r2)
              \<and> (\<forall>r2. z = Inr r2 \<and> resp_status r2 = 401 \<longrightarrow> (\<exists>e. res = Inl e))"
          using res post redispatch by simp
        then show ?thesis
          using scopes by blast
      qed
    qed
  qed
qed

text \<open>
  The path without a token. When the provider supplies no token at the start, whether or
  not it has \<^verbatim>\<open>refresh\<close>, the only other event of the call is one \<^verbatim>\<open>fetch\<close> of the request
  built with the client identifier and without a token (the static \<^verbatim>\<open>callAPI\<close>, lines
  465-467); its response is decoded, so a 401 gives an error.
\<close>

lemma callAPI_no_token_path:
  assumes run: "callAPI env options w = (res, w', evs)"
    and none: "evs = GetAccessToken sc (Inr None) # rest"
  shows "\<exists>r. rest = [Fetch (callAPIRaw_request (env_lib env) options (Some (env_clientId env)) None) r]
           \<and> res = (case r of Inl e \<Rightarrow> Inl e
                    | Inr response \<Rightarrow> transformResponse (env_lib env) response)
           \<and> (\<forall>response. r = Inr response \<and> resp_status response = 401
                 \<longrightarrow> (\<exists>e. res = Inl e))"
proof -
  obtain x0 w0 where g: "env_getAccessToken env (initial_scopes options) w = (x0, w0)"
    by (cases "env_getAccessToken env (initial_scopes options) w")
  have x0: "x0 = Inr None"
    using run none g
    by (auto simp: callAPI_def bindA_def getAccessToken_call_def split: sum.splits prod.splits)
  obtain r w1 where f: "env_fetch env
      (callAPIRaw_request (env_lib env) options (Some (env_clientId env)) None) w0 = (r, w1)"
    by (cases "env_fetch env
      (callAPIRaw_request (env_lib env) options (Some (env_clientId env)) None) w0")
  have rest: "rest = [Fetch (callAPIRaw_request (env_lib env) options (Some (env_clientId env)) None) r]"
    and res: "res = (case r of Inl e \<Rightarrow> Inl e
                     | Inr response \<Rightarrow> transformResponse (env_lib env) response)"
    using run none g x0 f
    by (auto simp: callAPI_def bindA_def getAccessToken_call_def static_callAPI_def callAPIRaw_def
        fetch_call_def resultA_def split: sum.splits prod.splits)
  have "\<forall>response. r = Inr response \<and> resp_status response = 401 \<longrightarrow> (\<exists>e. res = Inl e)"
    using res unauthorized_is_error [of _ "env_lib env"] by auto
  then show ?thesis
    using rest res by blast
qed

text \<open>The argument of the first \<^verbatim>\<open>getAccessToken\<close> is that of line 464.\<close>

lemma callAPI_first_scopes:
  "callAPI env options w = (res, w', evs) \<Longrightarrow> evs = GetAccessToken sc x # rest
   \<Longrightarrow> sc = initial_scopes options"
  by (auto simp: callAPI_def bindA_def getAccessToken_call_def split: sum.splits prod.splits)

text \<open>
  C1, as the code has it, in two parts.

  First, take a call of \<^verbatim>\<open>callAPI\<close> by a client whose provider has \<^verbatim>\<open>refresh\<close>, in which
  the provider supplied a token at the start (the first event, asked for with the argument
  of line 464) and the first dispatch resolved to a response with status 401. Then the
  events after that dispatch, and the result of the call, are one of:
  \<^item> one refresh that rejected; the call fails with its error;
  \<^item> one refresh, then one \<^verbatim>\<open>getAccessToken\<close> with the argument of line 476 that
    rejected; the call fails with its error;
  \<^item> one refresh, then one \<^verbatim>\<open>getAccessToken\<close> with the argument of line 476 that
    supplied no token; the original response is decoded, which gives an error;
  \<^item> one refresh, then one \<^verbatim>\<open>getAccessToken\<close> with the argument of line 476 that
    supplied a token, then one dispatch of the same descriptor with the new token and
    nothing after it; its response is decoded, and when its status is again 401 the result
    is an error.

  The argument of line 476 names the same scopes as the argument of line 464: the
  descriptor's scope, or none (\<^verbatim>\<open>[]\<close> where line 464 passes \<^verbatim>\<open>undefined\<close>).

  Second, take any call of \<^verbatim>\<open>callAPI\<close> in which the provider supplied no token at the
  start, whether or not it has \<^verbatim>\<open>refresh\<close>. Then the only other event is one \<^verbatim>\<open>fetch\<close> of
  the request built with the client identifier and without a token; the result is its
  error or its response decoded, and a response with status 401 gives an error. There is
  no refresh.
\<close>

theorem callAPI_unauthorized_once:
  "(callAPI env options w = (res, w', evs)
      \<and> env_refresh env \<noteq> None
      \<and> evs = GetAccessToken sc (Inr (Some t0)) # rest
      \<and> dropWhile (\<lambda>e. \<not> is_dispatch e) rest = d1 # post
      \<and> dispatch_outcome d1 = Some (Inr r1) \<and> resp_status r1 = 401
    \<longrightarrow> sc = initial_scopes options
      \<and> scope_list (retry_scopes options) = scope_list sc
      \<and> ((\<exists>e. post = [Refresh (Inl e)] \<and> res = Inl e)
       \<or> (\<exists>t e. post = [Refresh (Inr t), GetAccessToken (retry_scopes options) (Inl e)]
              \<and> res = Inl e)
       \<or> (\<exists>t. post = [Refresh (Inr t), GetAccessToken (retry_scopes options) (Inr None)]
              \<and> res = transformResponse (env_lib env) r1 \<and> (\<exists>e. res = Inl e))
       \<or> (\<exists>t t2 z. post = [Refresh (Inr t), GetAccessToken (retry_scopes options) (Inr (Some t2)),
                dispatch_event env options (tok_accessToken t2) z]
              \<and> res = (case z of Inl e \<Rightarrow> Inl e | Inr r2 \<Rightarrow> transformResponse (env_lib env) r2)
              \<and> (\<forall>r2. z = Inr r2 \<and> resp_status r2 = 401 \<longrightarrow> (\<exists>e. res = Inl e)))))
   \<and> (callAPI env options w = (res, w', evs) \<and> evs = GetAccessToken sc (Inr None) # rest
    \<longrightarrow> sc = initial_scopes options
      \<and> (\<exists>r. rest = [Fetch (callAPIRaw_request (env_lib env) options (Some (env_clientId env)) None) r]
           \<and> res = (case r of Inl e \<Rightarrow> Inl e
                    | Inr response \<Rightarrow> transformResponse (env_lib env) response)
           \<and> (\<forall>response. r = Inr response \<and> resp_status response = 401
                 \<longrightarrow> (\<exists>e. res = Inl e))))"
proof (intro conjI impI)
  assume a: "callAPI env options w = (res, w', evs)
      \<and> env_refresh env \<noteq> None
      \<and> evs = GetAccessToken sc (Inr (Some t0)) # rest
      \<and> dropWhile (\<lambda>e. \<not> is_dispatch e) rest = d1 # post
      \<and> dispatch_outcome d1 = Some (Inr r1) \<and> resp_status r1 = 401"
  from a callAPI_first_scopes [of env options w res w' evs sc "Inr (Some t0)" rest]
  show "sc = initial_scopes options"
    by blast
  from callAPI_token_path [of env options w res w' evs sc t0 rest d1 post r1] a
  show "scope_list (retry_scopes options) = scope_list sc"
    by blast
  from callAPI_token_path [of env options w res w' evs sc t0 rest d1 post r1] a
  show "(\<exists>e. post = [Refresh (Inl e)] \<and> res = Inl e)
       \<or> (\<exists>t e. post = [Refresh (Inr t), GetAccessToken (retry_scopes options) (Inl e)]
              \<and> res = Inl e)
       \<or> (\<exists>t. post = [Refresh (Inr t), GetAccessToken (retry_scopes options) (Inr None)]
              \<and> res = transformResponse (env_lib env) r1 \<and> (\<exists>e. res = Inl e))
       \<or> (\<exists>t t2 z. post = [Refresh (Inr t), GetAccessToken (retry_scopes options) (Inr (Some t2)),
                dispatch_event env options (tok_accessToken t2) z]
              \<and> res = (case z of Inl e \<Rightarrow> Inl e | Inr r2 \<Rightarrow> transformResponse (env_lib env) r2)
              \<and> (\<forall>r2. z = Inr r2 \<and> resp_status r2 = 401 \<longrightarrow> (\<exists>e. res = Inl e)))"
    by blast
next
  assume b: "callAPI env options w = (res, w', evs) \<and> evs = GetAccessToken sc (Inr None) # rest"
  from b callAPI_first_scopes [of env options w res w' evs sc "Inr None" rest]
  show "sc = initial_scopes options"
    by blast
  from b callAPI_no_token_path [of env options w res w' evs sc rest]
  show "\<exists>r. rest = [Fetch (callAPIRaw_request (env_lib env) options (Some (env_clientId env)) None) r]
           \<and> res = (case r of Inl e \<Rightarrow> Inl e
                    | Inr response \<Rightarrow> transformResponse (env_lib env) response)
           \<and> (\<forall>response. r = Inr response \<and> resp_status response = 401
                 \<longrightarrow> (\<exists>e. res = Inl e))"
    by blast
qed

text \<open>
  C1 on two runs. In the first the provider supplies the token \<^verbatim>\<open>t1\<close>, the first response
  is a 401, the refresh resolves, the provider supplies \<^verbatim>\<open>t2\<close>, and the second response is
  a 200: the events after the first dispatch are one refresh, one \<^verbatim>\<open>getAccessToken\<close> and
  one dispatch. In the second the provider supplies no token and the response is a 401:
  the only other event is one \<^verbatim>\<open>fetch\<close>, and the call fails with the HTTP-status error.
\<close>

theorem callAPI_unauthorized_once_witness:
  "callAPI (scripted_env True) (call_options ''streams'') retry_world =
     (Inr (Some (JArray [])), finished_world,
      [GetAccessToken None (Inr (Some (fresh_token ''t1''))),
       Fetch (streams_request (Some ''OAuth t1'')) (Inr (http_response 401 ''Unauthorized'' ''{}'')),
       Refresh (Inr (fresh_token ''t2'')),
       GetAccessToken (Some []) (Inr (Some (fresh_token ''t2''))),
       Fetch (streams_request (Some ''OAuth t2'')) (Inr (http_response 200 ''OK'' ''[]''))])
   \<and> (\<exists>t t2 z.
        [Refresh (Inr (fresh_token ''t2'')),
         GetAccessToken (Some []) (Inr (Some (fresh_token ''t2''))),
         Fetch (streams_request (Some ''OAuth t2'')) (Inr (http_response 200 ''OK'' ''[]''))]
        = [Refresh (Inr t), GetAccessToken (retry_scopes (call_options ''streams'')) (Inr (Some t2)),
           dispatch_event (scripted_env True) (call_options ''streams'') (tok_accessToken t2) z])
   \<and> (\<exists>r. [Fetch (streams_request None) (Inr (http_response 401 ''Unauthorized'' ''{}''))]
            = [Fetch (callAPIRaw_request (env_lib (scripted_env True)) (call_options ''streams'')
                 (Some (env_clientId (scripted_env True))) None) r]
          \<and> (Inl (HTTPStatusCodeError 401 ''Unauthorized'' (JObject [])) :: Error + JSON option)
            = (case r of Inl e \<Rightarrow> Inl e
               | Inr response \<Rightarrow> transformResponse (env_lib (scripted_env True)) response))"
proof -
  have run: "callAPI (scripted_env True) (call_options ''streams'') retry_world =
     (Inr (Some (JArray [])), finished_world,
      [GetAccessToken None (Inr (Some (fresh_token ''t1''))),
       Fetch (streams_request (Some ''OAuth t1'')) (Inr (http_response 401 ''Unauthorized'' ''{}'')),
       Refresh (Inr (fresh_token ''t2'')),
       GetAccessToken (Some []) (Inr (Some (fresh_token ''t2''))),
       Fetch (streams_request (Some ''OAuth t2'')) (Inr (http_response 200 ''OK'' ''[]''))])"
    by code_simp
  have capable: "env_refresh (scripted_env True) \<noteq> None"
    by (simp add: scripted_env_def)
  have first: "dropWhile (\<lambda>e. \<not> is_dispatch e)
      [Fetch (streams_request (Some ''OAuth t1'')) (Inr (http_response 401 ''Unauthorized'' ''{}'')),
       Refresh (Inr (fresh_token ''t2'')),
       GetAccessToken (Some []) (Inr (Some (fresh_token ''t2''))),
       Fetch (streams_request (Some ''OAuth t2'')) (Inr (http_response 200 ''OK'' ''[]''))]
     = Fetch (streams_request (Some ''OAuth t1'')) (Inr (http_response 401 ''Unauthorized'' ''{}''))
       # [Refresh (Inr (fresh_token ''t2'')),
          GetAccessToken (Some []) (Inr (Some (fresh_token ''t2''))),
          Fetch (streams_request (Some ''OAuth t2'')) (Inr (http_response 200 ''OK'' ''[]''))]"
    by simp
  have outcome: "dispatch_outcome
      (Fetch (streams_request (Some ''OAuth t1'')) (Inr (http_response 401 ''Unauthorized'' ''{}'')))
     = Some (Inr (http_response 401 ''Unauthorized'' ''{}''))"
    by simp
  have status: "resp_status (http_response 401 ''Unauthorized'' ''{}'') = 401"
    by (simp add: http_response_def)
  have run2: "callAPI (scripted_env True) (call_options ''streams'') no_token_world =
     (Inl (HTTPStatusCodeError 401 ''Unauthorized'' (JObject [])),
      no_token_world\<lparr>w_tokens := [], w_responses := [Inr (http_response 200 ''OK'' ''[]'')]\<rparr>,
      [GetAccessToken None (Inr None),
       Fetch (streams_request None) (Inr (http_response 401 ''Unauthorized'' ''{}''))])"
    by code_simp
  have token_path: "\<exists>t t2 z.
        [Refresh (Inr (fresh_token ''t2'')),
         GetAccessToken (Some []) (Inr (Some (fresh_token ''t2''))),
         Fetch (streams_request (Some ''OAuth t2'')) (Inr (http_response 200 ''OK'' ''[]''))]
        = [Refresh (Inr t), GetAccessToken (retry_scopes (call_options ''streams'')) (Inr (Some t2)),
           dispatch_event (scripted_env True) (call_options ''streams'') (tok_accessToken t2) z]"
  proof -
    have hyps: "callAPI (scripted_env True) (call_options ''streams'') retry_world =
        (Inr (Some (JArray [])), finished_world,
         GetAccessToken None (Inr (Some (fresh_token ''t1'')))
         # [Fetch (streams_request (Some ''OAuth t1''))
              (Inr (http_response 401 ''Unauthorized'' ''{}'')),
            Refresh (Inr (fresh_token ''t2'')),
            GetAccessToken (Some []) (Inr (Some (fresh_token ''t2''))),
            Fetch (streams_request (Some ''OAuth t2'')) (Inr (http_response 200 ''OK'' ''[]''))])
      \<and> env_refresh (scripted_env True) \<noteq> None
      \<and> GetAccessToken None (Inr (Some (fresh_token ''t1'')))
         # [Fetch (streams_request (Some ''OAuth t1''))
              (Inr (http_response 401 ''Unauthorized'' ''{}'')),
            Refresh (Inr (fresh_token ''t2'')),
            GetAccessToken (Some []) (Inr (Some (fresh_token ''t2''))),
            Fetch (streams_request (Some ''OAuth t2'')) (Inr (http_response 200 ''OK'' ''[]''))]
        = GetAccessToken None (Inr (Some (fresh_token ''t1'')))
         # [Fetch (streams_request (Some ''OAuth t1''))
              (Inr (http_response 401 ''Unauthorized'' ''{}'')),
            Refresh (Inr (fresh_token ''t2'')),
            GetAccessToken (Some []) (Inr (Some (fresh_token ''t2''))),
            Fetch (streams_request (Some ''OAuth t2'')) (Inr (http_response 200 ''OK'' ''[]''))]
      \<and> dropWhile (\<lambda>e. \<not> is_dispatch e)
          [Fetch (streams_request (Some ''OAuth t1''))
              (Inr (http_response 401 ''Unauthorized'' ''{}'')),
            Refresh (Inr (fresh_token ''t2'')),
            GetAccessToken (Some []) (Inr (Some (fresh_token ''t2''))),
            Fetch (streams_request (Some ''OAuth t2'')) (Inr (http_response 200 ''OK'' ''[]''))]
        = Fetch (streams_request (Some ''OAuth t1''))
            (Inr (http_response 401 ''Unauthorized'' ''{}''))
          # [Refresh (Inr (fresh_token ''t2'')),
             GetAccessToken (Some []) (Inr (Some (fresh_token ''t2''))),
             Fetch (streams_request (Some ''OAuth t2'')) (Inr (http_response 200 ''OK'' ''[]''))]
      \<and> dispatch_outcome
          (Fetch (streams_request (Some ''OAuth t1''))
             (Inr (http_response 401 ''Unauthorized'' ''{}'')))
        = Some (Inr (http_response 401 ''Unauthorized'' ''{}''))
      \<and> resp_status (http_response 401 ''Unauthorized'' ''{}'') = 401"
      using run capable first outcome status by simp
    from callAPI_unauthorized_once [THEN conjunct1, rule_format, OF hyps]
    show ?thesis
      by auto
  qed
  have no_token_path: "\<exists>r. [Fetch (streams_request None) (Inr (http_response 401 ''Unauthorized'' ''{}''))]
            = [Fetch (callAPIRaw_request (env_lib (scripted_env True)) (call_options ''streams'')
                 (Some (env_clientId (scripted_env True))) None) r]
          \<and> (Inl (HTTPStatusCodeError 401 ''Unauthorized'' (JObject [])) :: Error + JSON option)
            = (case r of Inl e \<Rightarrow> Inl e
               | Inr response \<Rightarrow> transformResponse (env_lib (scripted_env True)) response)"
  proof -
    have hyps: "callAPI (scripted_env True) (call_options ''streams'') no_token_world =
        (Inl (HTTPStatusCodeError 401 ''Unauthorized'' (JObject [])),
         no_token_world\<lparr>w_tokens := [], w_responses := [Inr (http_response 200 ''OK'' ''[]'')]\<rparr>,
         GetAccessToken None (Inr None)
         # [Fetch (streams_request None) (Inr (http_response 401 ''Unauthorized'' ''{}''))])
      \<and> GetAccessToken None (Inr None)
         # [Fetch (streams_request None) (Inr (http_response 401 ''Unauthorized'' ''{}''))]
        = GetAccessToken None (Inr None)
         # [Fetch (streams_request None) (Inr (http_response 401 ''Unauthorized'' ''{}''))]"
      using run2 by simp
    from callAPI_unauthorized_once [THEN conjunct2, rule_format, OF hyps]
    show ?thesis
      by auto
  qed
  show ?thesis
    using run token_path no_token_path by blast
qed

text \<open>
  A run with two 401 responses in a row: one refresh, two dispatches, and the call fails
  with the HTTP-status error of the second response; the third response of the script is
  never asked for.
\<close>

lemma callAPI_second_unauthorized:
  "callAPI (scripted_env True) (call_options ''streams'') twice_unauthorized_world =
     (Inl (HTTPStatusCodeError 401 ''Unauthorized'' (JObject [])),
      \<lparr>w_tokens = [], w_refreshes = [Inr (fresh_token ''t3'')],
       w_responses = [Inr (http_response 200 ''OK'' ''[]'')]\<rparr>,
      [GetAccessToken None (Inr (Some (fresh_token ''t1''))),
       Fetch (streams_request (Some ''OAuth t1'')) (Inr (http_response 401 ''Unauthorized'' ''{}'')),
       Refresh (Inr (fresh_token ''t2'')),
       GetAccessToken (Some []) (Inr (Some (fresh_token ''t2''))),
       Fetch (streams_request (Some ''OAuth t2''))
         (Inr (http_response 401 ''Unauthorized'' ''{}''))])"
  by code_simp

text \<open>
  C1 as stated fails for a call in which the provider, though it has \<^verbatim>\<open>refresh\<close>, supplies
  no token at the start: the call is made through the static \<^verbatim>\<open>callAPI\<close> (lines 465-467),
  its response is a 401, and the call fails with the HTTP-status error at once: the events
  hold no refresh, no second \<^verbatim>\<open>getAccessToken\<close> and no second dispatch.
\<close>

theorem callAPI_no_token_no_refresh:
  "env_refresh (scripted_env True) \<noteq> None
   \<and> callAPI (scripted_env True) (call_options ''streams'') no_token_world =
     (Inl (HTTPStatusCodeError 401 ''Unauthorized'' (JObject [])),
      no_token_world\<lparr>w_tokens := [], w_responses := [Inr (http_response 200 ''OK'' ''[]'')]\<rparr>,
      [GetAccessToken None (Inr None),
       Fetch (streams_request None) (Inr (http_response 401 ''Unauthorized'' ''{}''))])
   \<and> filter is_refresh
       (snd (snd (callAPI (scripted_env True) (call_options ''streams'') no_token_world))) = []"
  by code_simp

end
